theory Spec2Isabelle
  imports Complex_Main "HOL-Library.Word"
begin

section \<open>Blackmagic RAW frame extractor: a shallow embedding\<close>

text \<open>
  The repository holds three variants of one program:
  \<^item> \<^verbatim>\<open>server/braw-extract.cpp\<close>, a command-line tool (definitions suffixed \<open>_extract\<close>);
  \<^item> \<^verbatim>\<open>server/braw-extractor.cpp\<close>, a second command-line tool that follows the vendor's
    sample (definitions suffixed \<open>_extractor\<close>);
  \<^item> \<^verbatim>\<open>server/native/braw_addon.cpp\<close>, a Node.js addon (definitions suffixed \<open>_addon\<close>).

  The vendor SDK is not part of the repository. Every SDK call is answered by a stub: a
  record of the answers the SDK gives, passed as an argument. Each call the program makes is
  appended to a trace of events, so that the calls and the reference counting can be counted.
  Machine integers are words: \<open>unsigned int\<close> is \<open>32 word\<close>, \<open>uint64_t\<close> is
  \<open>64 word\<close>, \<open>int\<close> is \<open>32 word\<close> read by \<open>sint\<close>, and \<open>long\<close> is
  \<open>64 word\<close> read by \<open>sint\<close> (LP64, the data model of the platforms the SDK's
  \<^verbatim>\<open>/usr/local/lib\<close> install targets). A \<open>float\<close>, a \<open>double\<close> and a JavaScript number are
  IEEE 754 values.
\<close>

subsection \<open>Bytes, memory and decimal output\<close>

type_synonym byte = "8 word"

text \<open>A \<open>const void*\<close> into raw memory: the byte found at each offset. C does not bound it.\<close>

type_synonym memory = "nat \<Rightarrow> byte"

definition byte_of_char :: "char \<Rightarrow> byte" where
  "byte_of_char c = of_nat (of_char c)"

text \<open>What \<^verbatim>\<open>operator<<\<close> and \<^verbatim>\<open>%u\<close> print for an unsigned value: its decimal digits.\<close>

definition digit :: "nat \<Rightarrow> char" where
  "digit d = ''0123456789'' ! d"

function dec :: "nat \<Rightarrow> string" where
  "dec n = (if n < 10 then [digit n] else dec (n div 10) @ [digit (n mod 10)])"
  by pat_completeness auto
termination
  by (relation "measure id") auto

declare dec.simps [simp del]

subsection \<open>Floating point\<close>

text \<open>
  The values of IEEE 754 arithmetic: not-a-number, the two infinities, and the finite
  values, each a sign (\<open>True\<close> is negative) and a magnitude, a rational number that is not
  negative. Zero has a sign. C's \<open>float\<close> is the format binary32, C's \<open>double\<close> and
  JavaScript's numbers are binary64; the formats differ in the finite values they hold.
\<close>

datatype ieee = NaN | Infinity bool | Finite bool rat

type_synonym float = ieee

type_synonym double = ieee

fun is_finite :: "ieee \<Rightarrow> bool" where
  "is_finite (Finite s x) = True"
| "is_finite x = False"

fun is_zero :: "ieee \<Rightarrow> bool" where
  "is_zero (Finite s x) = (x = 0)"
| "is_zero x = False"

text \<open>
  A format: the number of bits of the significand, the implicit one included, and the
  largest exponent. The smallest exponent is \<open>1 - emax\<close>.
\<close>

record format =
  precision :: nat
  emax :: int

definition binary32 :: format where
  "binary32 = \<lparr>precision = 24, emax = 127\<rparr>"

definition binary64 :: format where
  "binary64 = \<lparr>precision = 53, emax = 1023\<rparr>"

text \<open>The number of binary digits of a natural number.\<close>

fun bitlen :: "nat \<Rightarrow> nat" where
  "bitlen n = (if n = 0 then 0 else Suc (bitlen (n div 2)))"

declare bitlen.simps [simp del]

text \<open>The exponent \<open>e\<close> of a positive rational \<open>q\<close>: \<open>2 ^ e \<le> q < 2 ^ (e + 1)\<close>.\<close>

definition floor_log2 :: "rat \<Rightarrow> int" where
  "floor_log2 q =
     (if 1 \<le> q then int (bitlen (nat \<lfloor>q\<rfloor>)) - 1 else - int (bitlen (nat (\<lceil>1 / q\<rceil> - 1))))"

text \<open>The nearest integer, the even one of the two when they are equally near.\<close>

definition round_half_even :: "rat \<Rightarrow> int" where
  "round_half_even x =
     (let n = \<lfloor>x\<rfloor>; r = x - of_int n
      in if r < 1 / 2 then n else if 1 / 2 < r then n + 1 else if even n then n else n + 1)"

text \<open>
  Rounding to nearest, ties to even, the rounding of conversions and of division by default:
  the magnitude \<open>q\<close> goes to the nearest multiple of the unit in the last place of its
  exponent (of the smallest exponent, for a subnormal), and to infinity when that multiple
  is beyond the largest finite value.
\<close>

definition round_to :: "format \<Rightarrow> bool \<Rightarrow> rat \<Rightarrow> ieee" where
  "round_to f s q =
     (if q = 0 then Finite s 0
      else let e = max (floor_log2 q) (1 - emax f);
               ulp = 2 powi (e - int (precision f) + 1);
               r = of_int (round_half_even (q / ulp)) * ulp
           in if 2 powi (emax f + 1) \<le> r then Infinity s else Finite s r)"

text \<open>
  The quotient \<open>x / y\<close> of two \<open>float\<close>s. A quotient with a not-a-number, of two infinities
  or of two zeros is not a number; a finite value that is not zero, or an infinity, over zero
  is an infinity; the sign of a result is negative when the two signs differ.
\<close>

fun float_div :: "float \<Rightarrow> float \<Rightarrow> float" where
  "float_div NaN y = NaN"
| "float_div x NaN = NaN"
| "float_div (Infinity s) (Infinity t) = NaN"
| "float_div (Infinity s) (Finite t y) = Infinity (s \<noteq> t)"
| "float_div (Finite s x) (Infinity t) = Finite (s \<noteq> t) 0"
| "float_div (Finite s x) (Finite t y) =
     (if y = 0 then (if x = 0 then NaN else Infinity (s \<noteq> t))
      else round_to binary32 (s \<noteq> t) (x / y))"

text \<open>
  The conversions the program makes: a \<open>uint64_t\<close> to \<open>float\<close> (the operand of a division
  by a \<open>float\<close>) and to \<open>double\<close> (\<^verbatim>\<open>static_cast<double>\<close>), an \<open>unsigned int\<close> to \<open>double\<close>,
  and a \<open>float\<close> to \<open>double\<close>, which changes no value.
\<close>

definition float_of_uint64 :: "64 word \<Rightarrow> float" where
  "float_of_uint64 n = round_to binary32 False (of_nat (unat n))"

definition double_of_uint64 :: "64 word \<Rightarrow> double" where
  "double_of_uint64 n = round_to binary64 False (of_nat (unat n))"

definition double_of_unsigned :: "32 word \<Rightarrow> double" where
  "double_of_unsigned n = round_to binary64 False (of_nat (unat n))"

definition double_of_float :: "float \<Rightarrow> double" where
  "double_of_float x = x"

subsection \<open>\<^verbatim>\<open>write_ppm\<close> (braw-extract.cpp and braw-extractor.cpp)\<close>

text \<open>
  \<^verbatim>\<open>file << "P6\n" << width << " " << height << "\n255\n"\<close>; braw-extractor.cpp prints the
  same bytes with \<^verbatim>\<open>fprintf(file, "P6\n%u %u\n255\n", width, height)\<close>.
\<close>

definition ppm_header :: "32 word \<Rightarrow> 32 word \<Rightarrow> byte list" where
  "ppm_header width height =
     map byte_of_char
       (''P6'' @ [CHR 0x0A] @ dec (unat width) @ '' '' @ dec (unat height)
          @ [CHR 0x0A] @ ''255'' @ [CHR 0x0A])"

text \<open>
  The loop \<^verbatim>\<open>for (unsigned int i = 0; i < width * height; i++)\<close>. The bound
  \<open>n = width * height\<close> and the offsets \<open>i * 4 + k\<close> are computed in \<open>unsigned int\<close>,
  so both wrap modulo \<open>2 ^ 32\<close>. The bytes written so far are \<open>out\<close>.
\<close>

function ppm_loop :: "memory \<Rightarrow> 32 word \<Rightarrow> 32 word \<Rightarrow> byte list \<Rightarrow> byte list" where
  "ppm_loop rgba n i out =
     (if i < n
      then ppm_loop rgba n (i + 1)
             (out @ [rgba (unat (i * 4 + 0)), rgba (unat (i * 4 + 1)), rgba (unat (i * 4 + 2))])
      else out)"
  by pat_completeness auto
termination
proof (relation "measure (\<lambda>(rgba, n, i, out). unat n - unat i)")
  show "wf (measure (\<lambda>(rgba, n, i, out). unat n - unat i))"
    by simp
next
  fix rgba :: memory and n i :: "32 word" and out :: "byte list"
  assume less: "i < n"
  then have "unat (i + 1) = Suc (unat i)"
    by unat_arith
  moreover from less have "unat i < unat n"
    by (simp add: word_less_nat_alt)
  ultimately show "((rgba, n, i + 1,
        out @ [rgba (unat (i * 4 + 0)), rgba (unat (i * 4 + 1)), rgba (unat (i * 4 + 2))]),
      (rgba, n, i, out)) \<in> measure (\<lambda>(rgba, n, i, out). unat n - unat i)"
    by simp
qed

declare ppm_loop.simps [simp del]

text \<open>
  \<open>write_ppm can_open width height data\<close>: \<open>can_open\<close> says whether the output file can be
  opened. \<open>None\<close> is the return value \<open>false\<close> (nothing written); \<open>Some bytes\<close> is the
  return value \<open>true\<close> with the bytes of the file.
\<close>

definition write_ppm :: "bool \<Rightarrow> 32 word \<Rightarrow> 32 word \<Rightarrow> memory \<Rightarrow> byte list option" where
  "write_ppm can_open width height data =
     (if \<not> can_open then None
      else Some (ppm_loop data (width * height) 0 (ppm_header width height)))"

text \<open>
  The file the claim describes: the header, then the red, green and blue bytes of each of
  the \<open>width * height\<close> pixels (the product taken in the natural numbers), the alpha byte left out.
\<close>

definition rgb_of_pixel :: "memory \<Rightarrow> nat \<Rightarrow> byte list" where
  "rgb_of_pixel data i = [data (4 * i), data (4 * i + 1), data (4 * i + 2)]"

definition ppm_expected :: "32 word \<Rightarrow> 32 word \<Rightarrow> memory \<Rightarrow> byte list" where
  "ppm_expected width height data =
     ppm_header width height @ concat (map (rgb_of_pixel data) [0..<unat width * unat height])"

subsection \<open>The vendor SDK, as the program sees it\<close>

text \<open>
  \<open>HRESULT\<close>: the program only compares a status with \<open>S_OK\<close>, stores \<open>E_FAIL\<close> and
  returns \<open>E_NOTIMPL\<close>; any other code the SDK may answer is \<open>E_OTHER\<close>.
\<close>

datatype HRESULT = S_OK | E_FAIL | E_NOTIMPL | E_OTHER nat

text \<open>Only \<^verbatim>\<open>blackmagicRawResourceTypeBufferCPU\<close> is named by the program.\<close>

datatype BlackmagicRawResourceType = blackmagicRawResourceTypeBufferCPU | ResourceTypeOther nat

text \<open>The reference-counted objects the program holds, and the calls it makes on the SDK.\<close>

datatype resource = Factory | Codec | Clip | ReadJob | DecodeJob | Image nat

datatype diagnostic =
    ReadComplete_failed_with_result HRESULT
  | SetResourceFormat_failed
  | CreateJobDecodeAndProcessFrame_failed
  | Submit_decode_job_failed
  | ProcessComplete_failed_with_result HRESULT
  | Failed_to_open_output_file

datatype event =
    CreateFactory
  | CreateCodec
  | OpenClip
  | SetCallback
  | CreateJobReadFrame "64 word"
  | SetResourceFormat
  | CreateJobDecodeAndProcessFrame
  | Submit resource
  | FlushJobs
  | AddRef resource
  | Release resource
  | Cerr diagnostic

text \<open>
  An SDK call with an out-parameter answers a status and what it wrote: \<open>None\<close> is an
  out-parameter left as the program initialised it (a null pointer, or zero for a scalar).
\<close>

type_synonym 'a out = "HRESULT \<times> 'a option"

text \<open>\<^verbatim>\<open>IBlackmagicRawProcessedImage\<close>: the answers of its four getters; \<open>image_id\<close> tells images apart.\<close>

record image =
  image_id :: nat
  image_GetWidth :: "32 word out"
  image_GetHeight :: "32 word out"
  image_GetResourceType :: "BlackmagicRawResourceType out"
  image_GetResource :: "memory out"

text \<open>
  A decode-and-process job: the answer of \<^verbatim>\<open>Submit\<close>, and the \<^verbatim>\<open>ProcessComplete\<close>
  calls (status, image) the pipeline makes for it once accepted. The SDK promises one.
\<close>

record decode_job =
  decode_Submit :: HRESULT
  decode_completions :: "(HRESULT \<times> image option) list"

text \<open>\<^verbatim>\<open>IBlackmagicRawFrame\<close>.\<close>

record frame =
  frame_SetResourceFormat :: HRESULT
  frame_CreateJobDecodeAndProcessFrame :: "decode_job out"

text \<open>
  A read job: the answer of \<^verbatim>\<open>Submit\<close>, and the \<^verbatim>\<open>ReadComplete\<close> calls (status, frame)
  the pipeline makes for it once accepted.
\<close>

record read_job =
  read_Submit :: HRESULT
  read_completions :: "(HRESULT \<times> frame option) list"

text \<open>
  \<^verbatim>\<open>IBlackmagicRawClip\<close>, \<^verbatim>\<open>IBlackmagicRaw\<close> (the codec) and \<^verbatim>\<open>IBlackmagicRawFactory\<close>.
\<close>

record clip =
  clip_GetFrameCount :: "64 word out"
  clip_GetWidth :: "32 word out"
  clip_GetHeight :: "32 word out"
  clip_GetFrameRate :: "float out"
  clip_CreateJobReadFrame :: "64 word \<Rightarrow> read_job out"

record codec =
  codec_OpenClip :: "string \<Rightarrow> clip out"
  codec_SetCallback :: HRESULT
  codec_FlushJobs :: HRESULT

record factory =
  factory_CreateCodec :: "codec out"

text \<open>
  The value of a local variable after a getter ran on it: what the getter wrote, or the
  value the variable was initialised with. The getter's status is not looked at.
\<close>

definition after_getter :: "'a \<Rightarrow> 'a out \<Rightarrow> 'a" where
  "after_getter init answer = (case snd answer of None \<Rightarrow> init | Some v \<Rightarrow> v)"

text \<open>
  The world outside the program: the trace of calls made so far, and the completions the
  pipeline owes for the jobs it has accepted.
\<close>

record world =
  trace :: "event list"
  read_queue :: "(HRESULT \<times> frame option) list"
  process_queue :: "(HRESULT \<times> image option) list"

definition world0 :: world where
  "world0 = \<lparr>trace = [], read_queue = [], process_queue = []\<rparr>"

definition log :: "event \<Rightarrow> world \<Rightarrow> world" where
  "log e w = w\<lparr>trace := trace w @ [e]\<rparr>"

definition logs :: "event list \<Rightarrow> world \<Rightarrow> world" where
  "logs es w = w\<lparr>trace := trace w @ es\<rparr>"

text \<open>\<^verbatim>\<open>job->Submit()\<close>, the SDK's side: an accepted job is queued for completion.\<close>

definition submit_read :: "read_job \<Rightarrow> world \<Rightarrow> world" where
  "submit_read j w =
     (log (Submit ReadJob) w)
       \<lparr>read_queue := read_queue w @ (if read_Submit j = S_OK then read_completions j else [])\<rparr>"

definition submit_decode :: "decode_job \<Rightarrow> world \<Rightarrow> world" where
  "submit_decode j w =
     (log (Submit DecodeJob) w)
       \<lparr>process_queue :=
          process_queue w @ (if decode_Submit j = S_OK then decode_completions j else [])\<rparr>"

text \<open>
  The pipeline calls a callback once per owed completion. A callback answers \<open>None\<close> when
  the program has no defined behaviour there (it goes through a null pointer).
\<close>

fun run_callbacks ::
  "('s \<Rightarrow> world \<Rightarrow> 'c \<Rightarrow> ('s \<times> world) option) \<Rightarrow> 'c list \<Rightarrow> 's \<Rightarrow> world \<Rightarrow> ('s \<times> world) option" where
  "run_callbacks cb [] s w = Some (s, w)"
| "run_callbacks cb (c # cs) s w =
     (case cb s w c of None \<Rightarrow> None | Some (s', w') \<Rightarrow> run_callbacks cb cs s' w')"

text \<open>
  \<^verbatim>\<open>codec->FlushJobs()\<close>, the SDK's side: it returns once every accepted job has had its
  callback. The read completions run first; the decode jobs they submit complete after them.
  The callbacks run on the SDK's threads; the order here is one of the orders the SDK allows.
\<close>

definition flush_jobs ::
  "('s \<Rightarrow> world \<Rightarrow> HRESULT \<times> frame option \<Rightarrow> ('s \<times> world) option) \<Rightarrow>
   ('s \<Rightarrow> world \<Rightarrow> HRESULT \<times> image option \<Rightarrow> ('s \<times> world) option) \<Rightarrow>
   's \<Rightarrow> world \<Rightarrow> ('s \<times> world) option" where
  "flush_jobs ReadComplete ProcessComplete s w =
     (case run_callbacks ReadComplete (read_queue w) s ((log FlushJobs w)\<lparr>read_queue := []\<rparr>) of
        None \<Rightarrow> None
      | Some (s1, w1) \<Rightarrow>
          run_callbacks ProcessComplete (process_queue w1) s1 (w1\<lparr>process_queue := []\<rparr>))"

subsection \<open>The completion sink \<^verbatim>\<open>BRAWCallback\<close> (braw-extract.cpp and braw_addon.cpp)\<close>

record BRAWCallback =
  processed_image :: "image option"
  error_occurred :: bool

text \<open>The constructor \<^verbatim>\<open>BRAWCallback() : processed_image(nullptr), error_occurred(false)\<close>.\<close>

definition new_BRAWCallback :: BRAWCallback where
  "new_BRAWCallback = \<lparr>processed_image = None, error_occurred = False\<rparr>"

text \<open>The destructor \<^verbatim>\<open>~BRAWCallback\<close>: releases the image it holds, if any.\<close>

definition delete_BRAWCallback :: "BRAWCallback \<Rightarrow> world \<Rightarrow> world" where
  "delete_BRAWCallback cb w =
     (case processed_image cb of
        None \<Rightarrow> w
      | Some img \<Rightarrow> log (Release (Image (image_id img))) w)"

text \<open>
  \<^verbatim>\<open>BRAWCallback::ReadComplete\<close> of braw-extract.cpp (lines 34 to 71): every failure sets the
  flag, releases the read job and returns early; the decode job is released after its submit.
\<close>

definition ReadComplete_extract ::
  "BRAWCallback \<Rightarrow> world \<Rightarrow> HRESULT \<times> frame option \<Rightarrow> (BRAWCallback \<times> world) option" where
  "ReadComplete_extract cb w c =
     (case c of (result, frame) \<Rightarrow>
        if result \<noteq> S_OK
        then Some (cb\<lparr>error_occurred := True\<rparr>,
                   logs [Cerr (ReadComplete_failed_with_result result), Release ReadJob] w)
        else (case frame of
            None \<Rightarrow> None
          | Some f \<Rightarrow>
              let w1 = log SetResourceFormat w in
              if frame_SetResourceFormat f \<noteq> S_OK
              then Some (cb\<lparr>error_occurred := True\<rparr>,
                         logs [Cerr SetResourceFormat_failed, Release ReadJob] w1)
              else
                let w2 = log CreateJobDecodeAndProcessFrame w1 in
                (case frame_CreateJobDecodeAndProcessFrame f of (result2, decodeJob) \<Rightarrow>
                   if result2 \<noteq> S_OK
                   then Some (cb\<lparr>error_occurred := True\<rparr>,
                              logs [Cerr CreateJobDecodeAndProcessFrame_failed, Release ReadJob] w2)
                   else (case decodeJob of
                       None \<Rightarrow> None
                     | Some j \<Rightarrow>
                         let w3 = submit_decode j w2 in
                         if decode_Submit j \<noteq> S_OK
                         then Some (cb\<lparr>error_occurred := True\<rparr>,
                                    logs [Cerr Submit_decode_job_failed,
                                          Release DecodeJob, Release ReadJob] w3)
                         else Some (cb, logs [Release DecodeJob, Release ReadJob] w3)))))"

text \<open>
  The end of \<^verbatim>\<open>ReadComplete\<close> in braw_addon.cpp (lines 43 to 50) and braw-extractor.cpp
  (lines 71 to 77), reached with the last status and the decode job pointer: on failure the
  decode job, if there is one, is released; the read job is released in every case.
\<close>

definition ReadComplete_exit :: "HRESULT \<Rightarrow> decode_job option \<Rightarrow> world \<Rightarrow> world" where
  "ReadComplete_exit result decodeAndProcessJob w =
     log (Release ReadJob)
       (if result \<noteq> S_OK \<and> decodeAndProcessJob \<noteq> None then log (Release DecodeJob) w else w)"

text \<open>
  The chain \<^verbatim>\<open>if (result == S_OK) result = ...\<close> of both files, up to the exit block: the
  status and decode job pointer it ends with. \<open>None\<close>: a null frame or a null decode job
  is dereferenced.
\<close>

definition ReadComplete_chain ::
  "world \<Rightarrow> HRESULT \<times> frame option \<Rightarrow> (HRESULT \<times> decode_job option \<times> world) option" where
  "ReadComplete_chain w c =
     (case c of (result, frame) \<Rightarrow>
        if result \<noteq> S_OK then Some (result, None, w)
        else (case frame of
            None \<Rightarrow> None
          | Some f \<Rightarrow>
              let w1 = log SetResourceFormat w; result1 = frame_SetResourceFormat f in
              if result1 \<noteq> S_OK then Some (result1, None, w1)
              else
                let w2 = log CreateJobDecodeAndProcessFrame w1 in
                (case frame_CreateJobDecodeAndProcessFrame f of (result2, decodeAndProcessJob) \<Rightarrow>
                   if result2 \<noteq> S_OK then Some (result2, decodeAndProcessJob, w2)
                   else (case decodeAndProcessJob of
                       None \<Rightarrow> None
                     | Some j \<Rightarrow> Some (decode_Submit j, decodeAndProcessJob, submit_decode j w2)))))"

text \<open>\<^verbatim>\<open>BRAWCallback::ReadComplete\<close> of braw_addon.cpp (lines 30 to 51).\<close>

definition ReadComplete_addon ::
  "BRAWCallback \<Rightarrow> world \<Rightarrow> HRESULT \<times> frame option \<Rightarrow> (BRAWCallback \<times> world) option" where
  "ReadComplete_addon cb w c =
     (case ReadComplete_chain w c of
        None \<Rightarrow> None
      | Some (result, decodeAndProcessJob, w') \<Rightarrow>
          Some (if result \<noteq> S_OK then cb\<lparr>error_occurred := True\<rparr> else cb,
                ReadComplete_exit result decodeAndProcessJob w'))"

text \<open>
  \<^verbatim>\<open>BRAWCallback::ProcessComplete\<close> (braw-extract.cpp lines 73 to 90, braw_addon.cpp lines
  53 to 69; the two differ by one diagnostic line, printed when \<open>verbose\<close>).
\<close>

definition BRAWCallback_ProcessComplete ::
  "bool \<Rightarrow> BRAWCallback \<Rightarrow> world \<Rightarrow> HRESULT \<times> image option \<Rightarrow> (BRAWCallback \<times> world) option" where
  "BRAWCallback_ProcessComplete verbose cb w c =
     (case c of (result, processedImage) \<Rightarrow>
        if result \<noteq> S_OK
        then Some (cb\<lparr>error_occurred := True\<rparr>,
                   logs ((if verbose then [Cerr (ProcessComplete_failed_with_result result)] else [])
                         @ [Release DecodeJob]) w)
        else
          let w1 = (case processed_image cb of
                      None \<Rightarrow> w
                    | Some held \<Rightarrow> log (Release (Image (image_id held))) w)
          in (case processedImage of
                None \<Rightarrow> None
              | Some img \<Rightarrow>
                  Some (cb\<lparr>processed_image := Some img\<rparr>,
                        logs [AddRef (Image (image_id img)), Release DecodeJob] w1)))"

definition ProcessComplete_extract ::
  "BRAWCallback \<Rightarrow> world \<Rightarrow> HRESULT \<times> image option \<Rightarrow> (BRAWCallback \<times> world) option" where
  "ProcessComplete_extract = BRAWCallback_ProcessComplete True"

definition ProcessComplete_addon ::
  "BRAWCallback \<Rightarrow> world \<Rightarrow> HRESULT \<times> image option \<Rightarrow> (BRAWCallback \<times> world) option" where
  "ProcessComplete_addon = BRAWCallback_ProcessComplete False"

text \<open>
  A whole life of the sink: constructed, called back by the pipeline with the given
  \<^verbatim>\<open>ProcessComplete\<close> calls, then destroyed.
\<close>

definition sink_lifetime :: "bool \<Rightarrow> (HRESULT \<times> image option) list \<Rightarrow> world \<Rightarrow> world option" where
  "sink_lifetime verbose calls w =
     (case run_callbacks (BRAWCallback_ProcessComplete verbose) calls new_BRAWCallback w of
        None \<Rightarrow> None
      | Some (cb, w') \<Rightarrow> Some (delete_BRAWCallback cb w'))"

subsection \<open>The callback \<^verbatim>\<open>CameraCodecCallback\<close> and the globals of braw-extractor.cpp\<close>

text \<open>
  \<^verbatim>\<open>g_output_width\<close>, \<^verbatim>\<open>g_output_height\<close>, \<^verbatim>\<open>g_output_success\<close>, and the file at
  \<^verbatim>\<open>g_output_path\<close> (\<open>None\<close> while nothing has been written to it).
\<close>

record extractor_globals =
  g_output_width :: "32 word"
  g_output_height :: "32 word"
  g_output_success :: bool
  g_output_file :: "byte list option"

text \<open>\<^verbatim>\<open>CameraCodecCallback::ReadComplete\<close> (lines 58 to 78): the chain, with no error flag.\<close>

definition ReadComplete_extractor ::
  "extractor_globals \<Rightarrow> world \<Rightarrow> HRESULT \<times> frame option \<Rightarrow> (extractor_globals \<times> world) option" where
  "ReadComplete_extractor g w c =
     (case ReadComplete_chain w c of
        None \<Rightarrow> None
      | Some (result, decodeAndProcessJob, w') \<Rightarrow>
          Some (g, ReadComplete_exit result decodeAndProcessJob w'))"

text \<open>
  \<^verbatim>\<open>CameraCodecCallback::ProcessComplete\<close> (lines 80 to 103): the image is written to the
  output file from inside the callback. \<^verbatim>\<open>write_ppm\<close> reads through \<open>imageData\<close>, which is
  not checked: with a null pointer the read is undefined as soon as the loop runs once.
\<close>

definition ProcessComplete_extractor ::
  "bool \<Rightarrow> extractor_globals \<Rightarrow> world \<Rightarrow> HRESULT \<times> image option \<Rightarrow>
   (extractor_globals \<times> world) option" where
  "ProcessComplete_extractor can_open g w c =
     (case c of (result, processedImage) \<Rightarrow>
        if result \<noteq> S_OK then Some (g, log (Release DecodeJob) w)
        else (case processedImage of
            None \<Rightarrow> None
          | Some img \<Rightarrow>
              let width = after_getter 0 (image_GetWidth img) in
              if fst (image_GetWidth img) \<noteq> S_OK then Some (g, log (Release DecodeJob) w)
              else
                let height = after_getter 0 (image_GetHeight img) in
                if fst (image_GetHeight img) \<noteq> S_OK then Some (g, log (Release DecodeJob) w)
                else if fst (image_GetResource img) \<noteq> S_OK then Some (g, log (Release DecodeJob) w)
                else if snd (image_GetResource img) = None \<and> can_open \<and> width * height \<noteq> 0
                then None
                else
                  (case write_ppm can_open width height
                          (case snd (image_GetResource img) of None \<Rightarrow> (\<lambda>k. 0) | Some data \<Rightarrow> data) of
                     None \<Rightarrow>
                       Some (g\<lparr>g_output_width := width, g_output_height := height,
                                g_output_success := False\<rparr>,
                             logs [Cerr Failed_to_open_output_file, Release DecodeJob] w)
                   | Some bytes \<Rightarrow>
                       Some (g\<lparr>g_output_width := width, g_output_height := height,
                                g_output_success := True, g_output_file := Some bytes\<rparr>,
                             log (Release DecodeJob) w))))"

subsection \<open>Results\<close>

text \<open>
  The error objects the three programs report, one constructor per message:
  \<^verbatim>\<open>"Failed to create factory"\<close>, \<^verbatim>\<open>"Failed to create codec"\<close>, \<^verbatim>\<open>"Failed to open clip"\<close>,
  \<^verbatim>\<open>"Failed to open clip: <path>"\<close>, \<^verbatim>\<open>"Frame <index> out of range (0-<frame_count-1>)"\<close>,
  \<^verbatim>\<open>"Frame index out of range"\<close>, \<^verbatim>\<open>"Failed to set callback"\<close>,
  \<^verbatim>\<open>"Failed to set callback: <status>"\<close>, \<^verbatim>\<open>"Failed to create read job"\<close>,
  \<^verbatim>\<open>"Failed to submit job"\<close>, \<^verbatim>\<open>"FlushJobs failed"\<close>, \<^verbatim>\<open>"Processing error occurred"\<close>,
  \<^verbatim>\<open>"No processed image received"\<close>, \<^verbatim>\<open>"Unexpected resource type"\<close>,
  \<^verbatim>\<open>"Failed to get image data"\<close>, \<^verbatim>\<open>"Failed to write output file"\<close>.
\<close>

datatype error =
    Failed_to_create_factory
  | Failed_to_create_codec
  | Failed_to_open_clip
  | Failed_to_open_clip_at string
  | Frame_out_of_range int "64 word"
  | Frame_index_out_of_range
  | Failed_to_set_callback
  | Failed_to_set_callback_with HRESULT
  | Failed_to_create_read_job
  | Failed_to_submit_job
  | FlushJobs_failed
  | Processing_error_occurred
  | No_processed_image_received
  | Unexpected_resource_type
  | Failed_to_get_image_data
  | Failed_to_write_output_file

text \<open>
  What a command-line operation leaves behind: its return value (the exit status), the
  error object printed on \<^verbatim>\<open>cerr\<close>, if any, and the success object printed on \<^verbatim>\<open>cout\<close>,
  if any.
\<close>

record 'a cli_result =
  return_value :: int
  cerr_error :: "error option"
  cout_success :: "'a option"

definition cli_failure :: "error \<Rightarrow> 'a cli_result" where
  "cli_failure e = \<lparr>return_value = 1, cerr_error = Some e, cout_success = None\<rparr>"

text \<open>
  What an addon operation returns: \<^verbatim>\<open>{success: false, error: <message>}\<close> or
  \<^verbatim>\<open>{success: true, ...}\<close> with its fields.
\<close>

datatype 'a napi_result = Napi_failure error | Napi_success 'a

text \<open>
  The metadata object the command-line tools print: the four properties and the derived
  duration, as the values handed to \<^verbatim>\<open>operator<<\<close>.
\<close>

record ClipMetadata =
  md_frame_count :: "64 word"
  md_width :: "32 word"
  md_height :: "32 word"
  md_frame_rate :: float
  md_duration :: float

text \<open>
  The four getters on an open clip and the object built from them (braw-extract.cpp lines
  160 to 179, braw-extractor.cpp lines 158 to 177). The locals start as \<open>0\<close> and \<^verbatim>\<open>0.0f\<close>;
  \<^verbatim>\<open>frame_count / frame_rate\<close> divides a \<open>uint64_t\<close> by a \<open>float\<close>, in \<open>float\<close>.
\<close>

definition get_metadata :: "clip \<Rightarrow> ClipMetadata" where
  "get_metadata c =
     (let frame_count = after_getter 0 (clip_GetFrameCount c);
          width = after_getter 0 (clip_GetWidth c);
          height = after_getter 0 (clip_GetHeight c);
          frame_rate = after_getter (Finite False 0) (clip_GetFrameRate c)
      in \<lparr>md_frame_count = frame_count, md_width = width, md_height = height,
          md_frame_rate = frame_rate,
          md_duration = float_div (float_of_uint64 frame_count) frame_rate\<rparr>)"

text \<open>
  The metadata object the addon builds (braw_addon.cpp lines 144 to 161): every property is
  a JavaScript number, made by \<^verbatim>\<open>Napi::Number::New\<close> from a \<open>double\<close>. The frame count goes
  through \<^verbatim>\<open>static_cast<double>\<close>; the quotient is taken in \<open>float\<close> and then widened.
\<close>

record MetadataObject =
  mo_frame_count :: double
  mo_width :: double
  mo_height :: double
  mo_frame_rate :: double
  mo_duration :: double

definition napi_metadata :: "clip \<Rightarrow> MetadataObject" where
  "napi_metadata c =
     (let frame_count = after_getter 0 (clip_GetFrameCount c);
          width = after_getter 0 (clip_GetWidth c);
          height = after_getter 0 (clip_GetHeight c);
          frame_rate = after_getter (Finite False 0) (clip_GetFrameRate c)
      in \<lparr>mo_frame_count = double_of_uint64 frame_count,
          mo_width = double_of_unsigned width, mo_height = double_of_unsigned height,
          mo_frame_rate = double_of_float frame_rate,
          mo_duration = double_of_float (float_div (float_of_uint64 frame_count) frame_rate)\<rparr>)"

subsection \<open>The metadata operation\<close>

text \<open>
  The test \<^verbatim>\<open>result != S_OK || !pointer\<close> (throughout braw-extract.cpp, and on
  \<^verbatim>\<open>GetResource\<close> in braw_addon.cpp): \<open>None\<close> when it fires, the object otherwise.
\<close>

definition checked :: "'a out \<Rightarrow> 'a option" where
  "checked answer = (if fst answer \<noteq> S_OK then None else snd answer)"

text \<open>
  \<^verbatim>\<open>extract_metadata\<close> of braw-extract.cpp (lines 129 to 187). It answers the result and
  the calls it made.
\<close>

definition extract_metadata_extract ::
  "factory option \<Rightarrow> string \<Rightarrow> ClipMetadata cli_result \<times> event list" where
  "extract_metadata_extract sdk input_path =
     (case sdk of
        None \<Rightarrow> (cli_failure Failed_to_create_factory, [CreateFactory])
      | Some factory \<Rightarrow>
          (case checked (factory_CreateCodec factory) of
             None \<Rightarrow> (cli_failure Failed_to_create_codec, [CreateFactory, CreateCodec, Release Factory])
           | Some codec \<Rightarrow>
               (case checked (codec_OpenClip codec input_path) of
                  None \<Rightarrow>
                    (cli_failure (Failed_to_open_clip_at input_path),
                     [CreateFactory, CreateCodec, OpenClip, Release Codec, Release Factory])
                | Some clip \<Rightarrow>
                    (\<lparr>return_value = 0, cerr_error = None,
                      cout_success = Some (get_metadata clip)\<rparr>,
                     [CreateFactory, CreateCodec, OpenClip,
                      Release Clip, Release Codec, Release Factory]))))"

text \<open>
  The cleanup after the \<^verbatim>\<open>do { ... } while(0)\<close> block of braw-extractor.cpp and
  braw_addon.cpp: each pointer that is not null is released, clip first.
\<close>

definition release_all :: "bool \<Rightarrow> bool \<Rightarrow> bool \<Rightarrow> event list" where
  "release_all clip codec factory =
     (if clip then [Release Clip] else []) @ (if codec then [Release Codec] else [])
       @ (if factory then [Release Factory] else [])"

text \<open>\<^verbatim>\<open>return result == S_OK ? 0 : 1\<close>.\<close>

definition exit_status :: "HRESULT \<Rightarrow> int" where
  "exit_status result = (if result = S_OK then 0 else 1)"

text \<open>
  \<^verbatim>\<open>extract_metadata\<close> of braw-extractor.cpp (lines 128 to 189). \<open>result\<close> starts as
  \<open>S_OK\<close> and is only assigned by \<^verbatim>\<open>CreateCodec\<close> and \<^verbatim>\<open>OpenClip\<close>. \<open>None\<close>: a call
  answered \<open>S_OK\<close> with a null pointer, which the next call goes through.
\<close>

definition extract_metadata_extractor ::
  "factory option \<Rightarrow> string \<Rightarrow> (ClipMetadata cli_result \<times> event list) option" where
  "extract_metadata_extractor sdk input_path =
     (case sdk of
        None \<Rightarrow>
          Some (\<lparr>return_value = exit_status S_OK, cerr_error = Some Failed_to_create_factory,
                 cout_success = None\<rparr>,
                [CreateFactory] @ release_all False False False)
      | Some factory \<Rightarrow>
          (case factory_CreateCodec factory of (result, codec) \<Rightarrow>
             if result \<noteq> S_OK
             then Some (\<lparr>return_value = exit_status result, cerr_error = Some Failed_to_create_codec,
                          cout_success = None\<rparr>,
                        [CreateFactory, CreateCodec] @ release_all False (codec \<noteq> None) True)
             else (case codec of
                 None \<Rightarrow> None
               | Some cdc \<Rightarrow>
                   (case codec_OpenClip cdc input_path of (result2, clip) \<Rightarrow>
                      if result2 \<noteq> S_OK
                      then Some (\<lparr>return_value = exit_status result2,
                                   cerr_error = Some Failed_to_open_clip, cout_success = None\<rparr>,
                                 [CreateFactory, CreateCodec, OpenClip]
                                   @ release_all (clip \<noteq> None) True True)
                      else (case clip of
                          None \<Rightarrow> None
                        | Some c \<Rightarrow>
                            Some (\<lparr>return_value = exit_status result2, cerr_error = None,
                                   cout_success = Some (get_metadata c)\<rparr>,
                                  [CreateFactory, CreateCodec, OpenClip]
                                    @ release_all True True True))))))"

text \<open>
  \<^verbatim>\<open>ExtractMetadata\<close> of braw_addon.cpp (lines 100 to 173), after its arguments are read.
\<close>

definition ExtractMetadata_addon ::
  "factory option \<Rightarrow> string \<Rightarrow> (MetadataObject napi_result \<times> event list) option" where
  "ExtractMetadata_addon sdk filePath =
     (case sdk of
        None \<Rightarrow>
          Some (Napi_failure Failed_to_create_factory,
                [CreateFactory] @ release_all False False False)
      | Some factory \<Rightarrow>
          (case factory_CreateCodec factory of (result, codec) \<Rightarrow>
             if result \<noteq> S_OK
             then Some (Napi_failure Failed_to_create_codec,
                        [CreateFactory, CreateCodec] @ release_all False (codec \<noteq> None) True)
             else (case codec of
                 None \<Rightarrow> None
               | Some cdc \<Rightarrow>
                   (case codec_OpenClip cdc filePath of (result2, clip) \<Rightarrow>
                      if result2 \<noteq> S_OK
                      then Some (Napi_failure Failed_to_open_clip,
                                 [CreateFactory, CreateCodec, OpenClip]
                                   @ release_all (clip \<noteq> None) True True)
                      else (case clip of
                          None \<Rightarrow> None
                        | Some c \<Rightarrow>
                            Some (Napi_success (napi_metadata c),
                                  [CreateFactory, CreateCodec, OpenClip]
                                    @ release_all True True True))))))"

subsection \<open>The frame operation of braw-extract.cpp\<close>

text \<open>The success object of the command-line tools: the dimensions of the frame written.\<close>

record frame_json =
  fj_width :: "32 word"
  fj_height :: "32 word"

text \<open>
  A failing exit of \<^verbatim>\<open>extract_frame\<close> in braw-extract.cpp: the error object is printed, the
  listed objects are released, and 1 is returned. The output file stays unwritten.
\<close>

definition fail_extract ::
  "error \<Rightarrow> event list \<Rightarrow> BRAWCallback \<Rightarrow> world \<Rightarrow>
   ((frame_json cli_result \<times> byte list option) \<times> BRAWCallback \<times> world) option" where
  "fail_extract e releases cb w = Some ((cli_failure e, None), cb, logs releases w)"

text \<open>
  Lines 285 to 354 of braw-extract.cpp: what \<^verbatim>\<open>extract_frame\<close> does once \<^verbatim>\<open>FlushJobs\<close> has
  answered \<open>S_OK\<close>. \<open>resourceType\<close> is not initialised: if the getter leaves it unwritten,
  the comparison reads an indeterminate value (\<open>None\<close>).
\<close>

definition resolve_extract ::
  "bool \<Rightarrow> BRAWCallback \<Rightarrow> world \<Rightarrow>
   ((frame_json cli_result \<times> byte list option) \<times> BRAWCallback \<times> world) option" where
  "resolve_extract can_open callback w =
     (if error_occurred callback
      then fail_extract Processing_error_occurred
             [Release Clip, Release Codec, Release Factory] callback w
      else (case processed_image callback of
          None \<Rightarrow>
            fail_extract No_processed_image_received
              [Release Clip, Release Codec, Release Factory] callback w
        | Some img \<Rightarrow>
            let width = after_getter 0 (image_GetWidth img);
                height = after_getter 0 (image_GetHeight img)
            in (case snd (image_GetResourceType img) of
                  None \<Rightarrow> None
                | Some resourceType \<Rightarrow>
                    if resourceType \<noteq> blackmagicRawResourceTypeBufferCPU
                    then fail_extract Unexpected_resource_type
                           [Release Clip, Release Codec, Release Factory] callback w
                    else (case checked (image_GetResource img) of
                        None \<Rightarrow>
                          fail_extract Failed_to_get_image_data
                            [Release Clip, Release Codec, Release Factory] callback w
                      | Some imageData \<Rightarrow>
                          (case write_ppm can_open width height imageData of
                             None \<Rightarrow>
                               fail_extract Failed_to_write_output_file
                                 [Cerr Failed_to_open_output_file,
                                  Release Clip, Release Codec, Release Factory] callback w
                           | Some bytes \<Rightarrow>
                               Some ((\<lparr>return_value = 0, cerr_error = None,
                                       cout_success =
                                         Some \<lparr>fj_width = width, fj_height = height\<rparr>\<rparr>,
                                      Some bytes),
                                     callback,
                                     logs [Release Clip, Release Codec, Release Factory] w))))))"

text \<open>
  \<^verbatim>\<open>extract_frame\<close> of braw-extract.cpp (lines 192 to 355). \<open>g_callback\<close> is the global
  sink as an earlier call left it (\<open>None\<close> in a fresh process); the sink of this call is
  answered with the result, since it stays alive when the function returns. \<open>frame_index\<close>
  is an \<open>int\<close>; the frame count is cast to \<open>int\<close> for the range check.
\<close>

definition extract_frame_extract ::
  "BRAWCallback option \<Rightarrow> factory option \<Rightarrow> bool \<Rightarrow> string \<Rightarrow> 32 word \<Rightarrow>
   ((frame_json cli_result \<times> byte list option) \<times> BRAWCallback \<times> world) option" where
  "extract_frame_extract g_callback sdk can_open input_path frame_index =
     (let w0 = (case g_callback of None \<Rightarrow> world0 | Some old \<Rightarrow> delete_BRAWCallback old world0);
          callback = new_BRAWCallback
      in case sdk of
        None \<Rightarrow> fail_extract Failed_to_create_factory [] callback (log CreateFactory w0)
      | Some factory \<Rightarrow>
          let w1 = logs [CreateFactory, CreateCodec] w0 in
          (case checked (factory_CreateCodec factory) of
             None \<Rightarrow> fail_extract Failed_to_create_codec [Release Factory] callback w1
           | Some codec \<Rightarrow>
               let w2 = log OpenClip w1 in
               (case checked (codec_OpenClip codec input_path) of
                  None \<Rightarrow>
                    fail_extract Failed_to_open_clip [Release Codec, Release Factory] callback w2
                | Some clip \<Rightarrow>
                    let frame_count = after_getter 0 (clip_GetFrameCount clip) in
                    if sint frame_index < 0 \<or> sint frame_index \<ge> sint (ucast frame_count :: 32 word)
                    then fail_extract (Frame_out_of_range (sint frame_index) (frame_count - 1))
                           [Release Clip, Release Codec, Release Factory] callback w2
                    else
                      let w3 = log SetCallback w2 in
                      if codec_SetCallback codec \<noteq> S_OK
                      then fail_extract (Failed_to_set_callback_with (codec_SetCallback codec))
                             [Release Clip, Release Codec, Release Factory] callback w3
                      else
                        let w4 = log (CreateJobReadFrame (scast frame_index)) w3 in
                        (case checked (clip_CreateJobReadFrame clip (scast frame_index)) of
                           None \<Rightarrow>
                             fail_extract Failed_to_create_read_job
                               [Release Clip, Release Codec, Release Factory] callback w4
                         | Some readJob \<Rightarrow>
                             let w5 = submit_read readJob w4 in
                             if read_Submit readJob \<noteq> S_OK
                             then fail_extract Failed_to_submit_job
                                    [Release ReadJob, Release Clip, Release Codec, Release Factory]
                                    callback w5
                             else
                               (case flush_jobs ReadComplete_extract ProcessComplete_extract
                                       callback (log (Release ReadJob) w5) of
                                  None \<Rightarrow> None
                                | Some (callback', w6) \<Rightarrow>
                                    if codec_FlushJobs codec \<noteq> S_OK
                                    then fail_extract FlushJobs_failed
                                           [Release Clip, Release Codec, Release Factory]
                                           callback' w6
                                    else resolve_extract can_open callback' w6)))))"

subsection \<open>The frame operation of braw-extractor.cpp\<close>

text \<open>
  Leaving the \<^verbatim>\<open>do { ... } while(0)\<close> block of \<^verbatim>\<open>extract_frame\<close> in braw-extractor.cpp with
  the status \<open>result\<close>: cleanup, then \<^verbatim>\<open>return result == S_OK ? 0 : 1\<close>.
\<close>

definition leave_extractor ::
  "HRESULT \<Rightarrow> error option \<Rightarrow> frame_json option \<Rightarrow> bool \<Rightarrow> bool \<Rightarrow> bool \<Rightarrow>
   extractor_globals \<Rightarrow> world \<Rightarrow> ((frame_json cli_result \<times> extractor_globals) \<times> world) option" where
  "leave_extractor result err out clip codec factory g w =
     Some ((\<lparr>return_value = exit_status result, cerr_error = err, cout_success = out\<rparr>, g),
           logs (release_all clip codec factory) w)"

text \<open>
  \<^verbatim>\<open>extract_frame\<close> of braw-extractor.cpp (lines 191 to 287). \<open>g\<close> holds the globals as the
  process has them at the call. \<open>frame_index\<close> is a \<open>long\<close>. The status of \<^verbatim>\<open>FlushJobs\<close>
  is dropped; the operation succeeds exactly when the callback has set \<^verbatim>\<open>g_output_success\<close>.
\<close>

definition extract_frame_extractor ::
  "extractor_globals \<Rightarrow> factory option \<Rightarrow> bool \<Rightarrow> string \<Rightarrow> 64 word \<Rightarrow>
   ((frame_json cli_result \<times> extractor_globals) \<times> world) option" where
  "extract_frame_extractor g sdk can_open input_path frame_index =
     (let g0 = g\<lparr>g_output_success := False\<rparr> in
      case sdk of
        None \<Rightarrow>
          leave_extractor S_OK (Some Failed_to_create_factory) None False False False g0
            (log CreateFactory world0)
      | Some factory \<Rightarrow>
          let w1 = logs [CreateFactory, CreateCodec] world0 in
          (case factory_CreateCodec factory of (result, codec) \<Rightarrow>
             if result \<noteq> S_OK
             then leave_extractor result (Some Failed_to_create_codec) None
                    False (codec \<noteq> None) True g0 w1
             else (case codec of
                 None \<Rightarrow> None
               | Some cdc \<Rightarrow>
                   let w2 = log OpenClip w1 in
                   (case codec_OpenClip cdc input_path of (result2, clip) \<Rightarrow>
                      if result2 \<noteq> S_OK
                      then leave_extractor result2 (Some Failed_to_open_clip) None
                             (clip \<noteq> None) True True g0 w2
                      else (case clip of
                          None \<Rightarrow> None
                        | Some c \<Rightarrow>
                            let frame_count = after_getter 0 (clip_GetFrameCount c) in
                            if sint frame_index < 0 \<or> sint frame_index \<ge> sint frame_count
                            then leave_extractor E_FAIL
                                   (Some (Frame_out_of_range (sint frame_index) (frame_count - 1)))
                                   None True True True g0 w2
                            else
                              let w3 = log SetCallback w2 in
                              if codec_SetCallback cdc \<noteq> S_OK
                              then leave_extractor (codec_SetCallback cdc)
                                     (Some Failed_to_set_callback) None True True True g0 w3
                              else
                                let w4 = log (CreateJobReadFrame frame_index) w3 in
                                (case clip_CreateJobReadFrame c frame_index of (result3, readJob) \<Rightarrow>
                                   if result3 \<noteq> S_OK
                                   then leave_extractor result3 (Some Failed_to_create_read_job) None
                                          True True True g0 w4
                                   else (case readJob of
                                       None \<Rightarrow> None
                                     | Some j \<Rightarrow>
                                         let w5 = submit_read j w4 in
                                         if read_Submit j \<noteq> S_OK
                                         then leave_extractor (read_Submit j)
                                                (Some Failed_to_submit_job) None True True True g0
                                                (log (Release ReadJob) w5)
                                         else
                                           (case flush_jobs ReadComplete_extractor
                                                   (ProcessComplete_extractor can_open) g0 w5 of
                                              None \<Rightarrow> None
                                            | Some (g1, w6) \<Rightarrow>
                                                if g_output_success g1
                                                then leave_extractor (read_Submit j) None
                                                       (Some \<lparr>fj_width = g_output_width g1,
                                                              fj_height = g_output_height g1\<rparr>)
                                                       True True True g1 w6
                                                else leave_extractor E_FAIL
                                                       (Some Failed_to_write_output_file) None
                                                       True True True g1 w6))))))))"

subsection \<open>The frame operation of braw_addon.cpp\<close>

text \<open>The fields of the success object: \<^verbatim>\<open>width\<close>, \<^verbatim>\<open>height\<close> and the copied \<^verbatim>\<open>buffer\<close>.\<close>

record decoded =
  dec_width :: "32 word"
  dec_height :: "32 word"
  dec_buffer :: "byte list"

text \<open>
  Leaving the \<^verbatim>\<open>do { ... } while(0)\<close> block of \<^verbatim>\<open>ExtractFrame\<close>: cleanup, then the local
  sink goes out of scope and its destructor runs.
\<close>

definition leave_addon ::
  "decoded napi_result \<Rightarrow> bool \<Rightarrow> bool \<Rightarrow> bool \<Rightarrow> BRAWCallback \<Rightarrow> world \<Rightarrow>
   (decoded napi_result \<times> world) option" where
  "leave_addon resultObj clip codec factory callback w =
     Some (resultObj, delete_BRAWCallback callback (logs (release_all clip codec factory) w))"

text \<open>
  Lines 267 to 321 of braw_addon.cpp: what \<^verbatim>\<open>ExtractFrame\<close> does once \<^verbatim>\<open>FlushJobs\<close> has
  returned. \<^verbatim>\<open>bufferSize = width * height * 4\<close> is computed in \<open>unsigned int\<close>.
\<close>

definition resolve_addon :: "BRAWCallback \<Rightarrow> world \<Rightarrow> (decoded napi_result \<times> world) option" where
  "resolve_addon callback w =
     (if error_occurred callback
      then leave_addon (Napi_failure Processing_error_occurred) True True True callback w
      else (case processed_image callback of
          None \<Rightarrow> leave_addon (Napi_failure No_processed_image_received) True True True callback w
        | Some img \<Rightarrow>
            let width = after_getter 0 (image_GetWidth img);
                height = after_getter 0 (image_GetHeight img)
            in (case snd (image_GetResourceType img) of
                  None \<Rightarrow> None
                | Some resourceType \<Rightarrow>
                    if resourceType \<noteq> blackmagicRawResourceTypeBufferCPU
                    then leave_addon (Napi_failure Unexpected_resource_type)
                           True True True callback w
                    else (case checked (image_GetResource img) of
                        None \<Rightarrow>
                          leave_addon (Napi_failure Failed_to_get_image_data)
                            True True True callback w
                      | Some imageData \<Rightarrow>
                          leave_addon
                            (Napi_success
                               \<lparr>dec_width = width, dec_height = height,
                                dec_buffer = map imageData [0..<unat (width * height * 4)]\<rparr>)
                            True True True callback w))))"

text \<open>
  \<^verbatim>\<open>ExtractFrame\<close> of braw_addon.cpp (lines 182 to 333), after its arguments are read.
  \<open>frameIndex\<close> is a \<open>long\<close>. The sink is a local variable. The status of \<^verbatim>\<open>FlushJobs\<close>
  is dropped.
\<close>

definition ExtractFrame_addon ::
  "factory option \<Rightarrow> string \<Rightarrow> 64 word \<Rightarrow> (decoded napi_result \<times> world) option" where
  "ExtractFrame_addon sdk filePath frameIndex =
     (let callback = new_BRAWCallback in
      case sdk of
        None \<Rightarrow>
          leave_addon (Napi_failure Failed_to_create_factory) False False False callback
            (log CreateFactory world0)
      | Some factory \<Rightarrow>
          let w1 = logs [CreateFactory, CreateCodec] world0 in
          (case factory_CreateCodec factory of (result, codec) \<Rightarrow>
             if result \<noteq> S_OK
             then leave_addon (Napi_failure Failed_to_create_codec)
                    False (codec \<noteq> None) True callback w1
             else (case codec of
                 None \<Rightarrow> None
               | Some cdc \<Rightarrow>
                   let w2 = log OpenClip w1 in
                   (case codec_OpenClip cdc filePath of (result2, clip) \<Rightarrow>
                      if result2 \<noteq> S_OK
                      then leave_addon (Napi_failure Failed_to_open_clip)
                             (clip \<noteq> None) True True callback w2
                      else (case clip of
                          None \<Rightarrow> None
                        | Some c \<Rightarrow>
                            let frame_count = after_getter 0 (clip_GetFrameCount c) in
                            if sint frameIndex < 0 \<or> sint frameIndex \<ge> sint frame_count
                            then leave_addon (Napi_failure Frame_index_out_of_range)
                                   True True True callback w2
                            else
                              let w3 = log SetCallback w2 in
                              if codec_SetCallback cdc \<noteq> S_OK
                              then leave_addon (Napi_failure Failed_to_set_callback)
                                     True True True callback w3
                              else
                                let w4 = log (CreateJobReadFrame frameIndex) w3 in
                                (case clip_CreateJobReadFrame c frameIndex of (result3, readJob) \<Rightarrow>
                                   if result3 \<noteq> S_OK
                                   then leave_addon (Napi_failure Failed_to_create_read_job)
                                          True True True callback w4
                                   else (case readJob of
                                       None \<Rightarrow> None
                                     | Some j \<Rightarrow>
                                         let w5 = submit_read j w4 in
                                         if read_Submit j \<noteq> S_OK
                                         then leave_addon (Napi_failure Failed_to_submit_job)
                                                True True True callback (log (Release ReadJob) w5)
                                         else
                                           (case flush_jobs ReadComplete_addon ProcessComplete_addon
                                                   callback w5 of
                                              None \<Rightarrow> None
                                            | Some (callback', w6) \<Rightarrow>
                                                resolve_addon callback' w6))))))))"

subsection \<open>The failure stages of the specification\<close>

text \<open>
  The specification names failures by stage. The stage each reported error stands for:
  the three open failures, the index check, a read job that cannot be created or submitted
  (\<open>ReadFailed\<close>), the sink's error flag (\<open>ProcessFailed\<close>), a missing image or a missing
  pixel pointer (\<open>ResourceUnavailable\<close>), an image that is not in CPU memory
  (\<open>UnsupportedResourceLocation\<close>). The other errors have no stage in the specification.
\<close>

datatype stage =
    FactoryUnavailable
  | CodecCreateFailed
  | ClipOpenFailed
  | FrameIndexOutOfRange
  | ReadFailed
  | FormatConfigFailed
  | DecodeSubmitFailed
  | ProcessFailed
  | UnsupportedResourceLocation
  | ResourceUnavailable

fun stage_of :: "error \<Rightarrow> stage option" where
  "stage_of Failed_to_create_factory = Some FactoryUnavailable"
| "stage_of Failed_to_create_codec = Some CodecCreateFailed"
| "stage_of Failed_to_open_clip = Some ClipOpenFailed"
| "stage_of (Failed_to_open_clip_at path) = Some ClipOpenFailed"
| "stage_of (Frame_out_of_range i n) = Some FrameIndexOutOfRange"
| "stage_of Frame_index_out_of_range = Some FrameIndexOutOfRange"
| "stage_of Failed_to_create_read_job = Some ReadFailed"
| "stage_of Failed_to_submit_job = Some ReadFailed"
| "stage_of Processing_error_occurred = Some ProcessFailed"
| "stage_of No_processed_image_received = Some ResourceUnavailable"
| "stage_of Unexpected_resource_type = Some UnsupportedResourceLocation"
| "stage_of Failed_to_get_image_data = Some ResourceUnavailable"
| "stage_of Failed_to_set_callback = None"
| "stage_of (Failed_to_set_callback_with result) = None"
| "stage_of FlushJobs_failed = None"
| "stage_of Failed_to_write_output_file = None"

subsection \<open>Vocabulary of the properties\<close>

text \<open>
  A read completion on which one of the three steps before the submit fails: the read
  status, \<^verbatim>\<open>SetResourceFormat\<close>, or \<^verbatim>\<open>CreateJobDecodeAndProcessFrame\<close>.
\<close>

definition read_step_fails :: "HRESULT \<times> frame option \<Rightarrow> bool" where
  "read_step_fails c =
     (fst c \<noteq> S_OK \<or>
      (case snd c of
         None \<Rightarrow> False
       | Some f \<Rightarrow> frame_SetResourceFormat f \<noteq> S_OK
                  \<or> fst (frame_CreateJobDecodeAndProcessFrame f) \<noteq> S_OK))"

text \<open>
  A read completion that keeps the SDK's contract on pointers: a successful read comes with
  a frame, and a successful job creation comes with a job. These are the completions on
  which \<^verbatim>\<open>ReadComplete\<close> goes through no null pointer.
\<close>

definition read_completion_defined :: "HRESULT \<times> frame option \<Rightarrow> bool" where
  "read_completion_defined c =
     (fst c \<noteq> S_OK \<or>
      (case snd c of
         None \<Rightarrow> False
       | Some f \<Rightarrow> frame_SetResourceFormat f \<noteq> S_OK
                  \<or> fst (frame_CreateJobDecodeAndProcessFrame f) \<noteq> S_OK
                  \<or> snd (frame_CreateJobDecodeAndProcessFrame f) \<noteq> None))"

text \<open>\<^verbatim>\<open>ProcessComplete\<close> calls in which every successful status comes with an image.\<close>

definition process_calls_defined :: "(HRESULT \<times> image option) list \<Rightarrow> bool" where
  "process_calls_defined calls = list_all (\<lambda>c. fst c \<noteq> S_OK \<or> snd c \<noteq> None) calls"

text \<open>The images handed to the sink by the successful calls, in order, by identity.\<close>

fun delivered :: "(HRESULT \<times> image option) list \<Rightarrow> nat list" where
  "delivered [] = []"
| "delivered ((result, processedImage) # calls) =
     (case processedImage of
        Some img \<Rightarrow> if result = S_OK then image_id img # delivered calls else delivered calls
      | None \<Rightarrow> delivered calls)"

text \<open>The image the sink holds, and the one reference the sink owes for it.\<close>

definition held_id :: "BRAWCallback \<Rightarrow> nat option" where
  "held_id cb = map_option image_id (processed_image cb)"

definition owed :: "BRAWCallback \<Rightarrow> nat \<Rightarrow> nat" where
  "owed cb i = (if held_id cb = Some i then 1 else 0)"

text \<open>The calls that create or submit a job.\<close>

fun is_job_call :: "event \<Rightarrow> bool" where
  "is_job_call (CreateJobReadFrame i) = True"
| "is_job_call CreateJobDecodeAndProcessFrame = True"
| "is_job_call (Submit r) = True"
| "is_job_call e = False"

text \<open>
  The drain as each frame operation reaches it, once the clip is open, the index is in
  range, the callback is set and the read job is created: the calls made so far, the submit
  of the read job, and \<^verbatim>\<open>FlushJobs\<close> with the operation's callbacks on a fresh sink.
\<close>

definition calls_before_submit :: "64 word \<Rightarrow> event list" where
  "calls_before_submit i = [CreateFactory, CreateCodec, OpenClip, SetCallback, CreateJobReadFrame i]"

definition world_before_call :: "BRAWCallback option \<Rightarrow> world" where
  "world_before_call g_callback =
     (case g_callback of None \<Rightarrow> world0 | Some old \<Rightarrow> delete_BRAWCallback old world0)"

definition drain_extract ::
  "BRAWCallback option \<Rightarrow> read_job \<Rightarrow> 32 word \<Rightarrow> (BRAWCallback \<times> world) option" where
  "drain_extract g_callback readJob frame_index =
     flush_jobs ReadComplete_extract ProcessComplete_extract new_BRAWCallback
       (log (Release ReadJob)
          (submit_read readJob
             (logs (calls_before_submit (scast frame_index)) (world_before_call g_callback))))"

definition drain_extractor ::
  "extractor_globals \<Rightarrow> bool \<Rightarrow> read_job \<Rightarrow> 64 word \<Rightarrow> (extractor_globals \<times> world) option" where
  "drain_extractor g can_open readJob frame_index =
     flush_jobs ReadComplete_extractor (ProcessComplete_extractor can_open)
       (g\<lparr>g_output_success := False\<rparr>)
       (submit_read readJob (logs (calls_before_submit frame_index) world0))"

definition drain_addon :: "read_job \<Rightarrow> 64 word \<Rightarrow> (BRAWCallback \<times> world) option" where
  "drain_addon readJob frameIndex =
     flush_jobs ReadComplete_addon ProcessComplete_addon new_BRAWCallback
       (submit_read readJob (logs (calls_before_submit frameIndex) world0))"

text \<open>How often a reference was taken on an image, and how often it was released.\<close>

definition references_of :: "nat \<Rightarrow> world \<Rightarrow> nat" where
  "references_of i w = count_list (trace w) (AddRef (Image i))"

definition releases_of :: "nat \<Rightarrow> world \<Rightarrow> nat" where
  "releases_of i w = count_list (trace w) (Release (Image i))"

text \<open>
  The release owed for the image that the sink of an earlier call holds, if there is one.
\<close>

definition owed_before :: "BRAWCallback option \<Rightarrow> nat \<Rightarrow> nat" where
  "owed_before g_callback i = (case g_callback of None \<Rightarrow> 0 | Some old \<Rightarrow> owed old i)"

text \<open>
  The balance of image references: the references taken, and the releases \<open>d\<close> owed from
  before, are matched by the releases made and the one the sink still owes for the image it
  holds.
\<close>

definition image_balance :: "(nat \<Rightarrow> nat) \<Rightarrow> BRAWCallback \<Rightarrow> world \<Rightarrow> bool" where
  "image_balance d cb w =
     (\<forall>i. count_list (trace w) (AddRef (Image i)) + d i
            = count_list (trace w) (Release (Image i)) + owed cb i)"

subsection \<open>Stubs for concrete runs\<close>

text \<open>A frame whose format cannot be set, and a frame whose decode job is accepted.\<close>

definition frame_format_fails :: frame where
  "frame_format_fails =
     \<lparr>frame_SetResourceFormat = E_FAIL,
      frame_CreateJobDecodeAndProcessFrame = (E_FAIL, None)\<rparr>"

text \<open>A 2 by 1 image in CPU memory, every byte \<open>0xFF\<close>, with the identity given.\<close>

definition white_image :: "nat \<Rightarrow> image" where
  "white_image i =
     \<lparr>image_id = i, image_GetWidth = (S_OK, Some 2), image_GetHeight = (S_OK, Some 1),
      image_GetResourceType = (S_OK, Some blackmagicRawResourceTypeBufferCPU),
      image_GetResource = (S_OK, Some (\<lambda>k. 255))\<rparr>"

definition decode_job_ok :: decode_job where
  "decode_job_ok = \<lparr>decode_Submit = S_OK, decode_completions = [(S_OK, Some (white_image 7))]\<rparr>"

definition frame_ok :: frame where
  "frame_ok =
     \<lparr>frame_SetResourceFormat = S_OK,
      frame_CreateJobDecodeAndProcessFrame = (S_OK, Some decode_job_ok)\<rparr>"

definition globals0 :: extractor_globals where
  "globals0 =
     \<lparr>g_output_width = 0, g_output_height = 0, g_output_success = False, g_output_file = None\<rparr>"

text \<open>
  A clip of 10 frames, 1920 by 1080, at 24 frames a second, whose read jobs are all the
  given one; the codec and the factory that open it.
\<close>

definition clip_with :: "read_job \<Rightarrow> clip" where
  "clip_with j =
     \<lparr>clip_GetFrameCount = (S_OK, Some 10), clip_GetWidth = (S_OK, Some 1920),
      clip_GetHeight = (S_OK, Some 1080), clip_GetFrameRate = (S_OK, Some (Finite False 24)),
      clip_CreateJobReadFrame = (\<lambda>i. (S_OK, Some j))\<rparr>"

definition codec_stub :: "clip \<Rightarrow> codec" where
  "codec_stub c =
     \<lparr>codec_OpenClip = (\<lambda>path. (S_OK, Some c)), codec_SetCallback = S_OK,
      codec_FlushJobs = S_OK\<rparr>"

definition factory_stub :: "clip \<Rightarrow> factory" where
  "factory_stub c = \<lparr>factory_CreateCodec = (S_OK, Some (codec_stub c))\<rparr>"

text \<open>The factory of a codec that opens the clip and whose \<^verbatim>\<open>FlushJobs\<close> fails.\<close>

definition factory_flush_fails :: "clip \<Rightarrow> factory" where
  "factory_flush_fails c =
     \<lparr>factory_CreateCodec = (S_OK, Some ((codec_stub c)\<lparr>codec_FlushJobs := E_FAIL\<rparr>))\<rparr>"

text \<open>A read job that completes well, one whose read fails, one whose processing fails.\<close>

definition read_job_ok :: read_job where
  "read_job_ok = \<lparr>read_Submit = S_OK, read_completions = [(S_OK, Some frame_ok)]\<rparr>"

definition read_job_read_fails :: read_job where
  "read_job_read_fails = \<lparr>read_Submit = S_OK, read_completions = [(E_FAIL, None)]\<rparr>"

definition read_job_process_fails :: read_job where
  "read_job_process_fails =
     \<lparr>read_Submit = S_OK,
      read_completions =
        [(S_OK, Some \<lparr>frame_SetResourceFormat = S_OK,
                      frame_CreateJobDecodeAndProcessFrame =
                        (S_OK, Some \<lparr>decode_Submit = S_OK,
                                     decode_completions = [(E_FAIL, None)]\<rparr>)\<rparr>)]\<rparr>"



text \<open>
  The clip above with two getters that fail: the width getter writes nothing, the height
  getter writes 1080 all the same.
\<close>

definition clip_getters_fail :: clip where
  "clip_getters_fail =
     (clip_with read_job_ok)
       \<lparr>clip_GetWidth := (E_FAIL, None), clip_GetHeight := (E_FAIL, Some 1080)\<rparr>"

text \<open>The clip above with a frame rate of zero.\<close>

definition clip_rate_zero :: clip where
  "clip_rate_zero = (clip_with read_job_ok)\<lparr>clip_GetFrameRate := (S_OK, Some (Finite False 0))\<rparr>"

section \<open>Properties\<close>

subsection \<open>Floating point\<close>

text \<open>Floor and ceiling of a quotient of numerals, for evaluation.\<close>

lemma floor_rat_numeral: "\<lfloor>numeral a / numeral b :: rat\<rfloor> = numeral a div numeral b"
  by (metis floor_divide_of_int_eq of_int_numeral)

lemma ceiling_rat_numeral: "\<lceil>numeral a / numeral b :: rat\<rceil> = - (- numeral a div numeral b)"
  by (metis ceiling_def floor_divide_of_int_eq minus_divide_left of_int_minus of_int_numeral)

text \<open>\<open>bitlen\<close> counts binary digits, and \<open>floor_log2\<close> is the exponent of a positive rational.\<close>

lemma bitlen_bounds: "0 < n \<Longrightarrow> 2 ^ (bitlen n - 1) \<le> n \<and> n < 2 ^ bitlen n"
proof (induction n rule: bitlen.induct)
  case (1 n)
  show ?case
  proof (cases "n div 2 = 0")
    case True
    with 1(2) have "n = 1"
      by (simp add: div_eq_0_iff) 
    then show ?thesis
      by (simp add: bitlen.simps)
  next
    case False
    with 1 have ih: "2 ^ (bitlen (n div 2) - 1) \<le> n div 2" "n div 2 < 2 ^ bitlen (n div 2)"
      by simp_all
    from False have pos: "0 < bitlen (n div 2)"
      by (simp add: bitlen.simps [of "n div 2"])
    have b: "bitlen n = Suc (bitlen (n div 2))"
      using 1(2) by (simp add: bitlen.simps [of n])
    from ih(1) have "2 * 2 ^ (bitlen (n div 2) - 1) \<le> n"
      by linarith
    moreover from pos have "2 * 2 ^ (bitlen (n div 2) - 1) = (2::nat) ^ bitlen (n div 2)"
      by (cases "bitlen (n div 2)") simp_all
    moreover from ih(2) have "n < 2 * 2 ^ bitlen (n div 2)"
      by linarith
    ultimately show ?thesis
      by (simp add: b)
  qed
qed

lemma floor_log2_bounds:
  assumes "0 < q"
  shows "2 powi floor_log2 q \<le> q \<and> q < 2 powi (floor_log2 q + 1)"
proof (cases "1 \<le> q")
  case True
  define n where "n = nat \<lfloor>q\<rfloor>"
  from True have n: "0 < n" "of_nat n \<le> q" "q < of_nat n + 1"
    unfolding n_def by (simp_all add: le_floor_iff) linarith+
  from bitlen_bounds [OF n(1)] have k: "2 ^ (bitlen n - 1) \<le> n" "n < 2 ^ bitlen n"
    by simp_all
  from n(1) have pos: "0 < bitlen n"
    by (simp add: bitlen.simps [of n])
  have e: "floor_log2 q = int (bitlen n) - 1"
    using True by (simp add: floor_log2_def n_def)
  have "(2::rat) ^ (bitlen n - 1) = of_nat (2 ^ (bitlen n - 1))"
    by simp
  also have "\<dots> \<le> of_nat n"
    using k(1) by (simp only: of_nat_le_iff)
  finally have low: "(2::rat) ^ (bitlen n - 1) \<le> q"
    using n(2) by linarith
  have "Suc n \<le> 2 ^ bitlen n"
    using k(2) by simp
  then have "(of_nat (Suc n) :: rat) \<le> of_nat (2 ^ bitlen n)"
    by (simp only: of_nat_le_iff)
  then have high: "q < 2 ^ bitlen n"
    using n(3) by simp
  from pos have "int (bitlen n) - 1 = int (bitlen n - 1)"
    by simp
  then have p1: "(2::rat) powi floor_log2 q = 2 ^ (bitlen n - 1)"
    unfolding e by (simp only: power_int_of_nat)
  have p2: "(2::rat) powi (floor_log2 q + 1) = 2 ^ bitlen n"
    by (simp add: e)
  from low high show ?thesis
    by (simp only: p1 p2)
next
  case False
  define m where "m = nat (\<lceil>1 / q\<rceil> - 1)"
  from False assms have y: "1 < 1 / q"
    by simp
  then have "(of_int 1 :: rat) < of_int \<lceil>1 / q\<rceil>"
    using le_of_int_ceiling [of "1 / q"] by (simp only: of_int_1)
  then have "1 < \<lceil>1 / q\<rceil>"
    by (simp only: of_int_less_iff)
  then have c: "2 \<le> \<lceil>1 / q\<rceil>"
    by linarith
  then have m: "0 < m" "int m = \<lceil>1 / q\<rceil> - 1"
    unfolding m_def by linarith+
  have up: "1 / q \<le> of_int \<lceil>1 / q\<rceil>" and down: "of_int \<lceil>1 / q\<rceil> - 1 < 1 / q"
    by linarith+
  from bitlen_bounds [OF m(1)] have k: "2 ^ (bitlen m - 1) \<le> m" "m < 2 ^ bitlen m"
    by simp_all
  from m(1) have pos: "0 < bitlen m"
    by (simp add: bitlen.simps [of m])
  have e: "floor_log2 q = - int (bitlen m)"
    using False by (simp add: floor_log2_def m_def)
  have "(of_nat m :: rat) = of_int \<lceil>1 / q\<rceil> - 1"
    using m(2) by (metis of_int_1 of_int_diff of_int_of_nat_eq)
  then have mm: "of_nat m < 1 / q" "1 / q \<le> of_nat m + 1"
    using up down by simp_all
  have "Suc m \<le> 2 ^ bitlen m"
    using k(2) by simp
  then have "(of_nat (Suc m) :: rat) \<le> of_nat (2 ^ bitlen m)"
    by (simp only: of_nat_le_iff)
  then have "1 / q \<le> 2 ^ bitlen m"
    using mm(2) by simp
  then have low: "1 / 2 ^ bitlen m \<le> q"
    using assms by (simp add: field_simps)
  have "(2::rat) ^ (bitlen m - 1) = of_nat (2 ^ (bitlen m - 1))"
    by simp
  also have "\<dots> \<le> of_nat m"
    using k(1) by (simp only: of_nat_le_iff)
  also have "\<dots> < 1 / q"
    by (rule mm(1))
  finally have high: "q < 1 / 2 ^ (bitlen m - 1)"
    using assms by (simp add: field_simps)
  have p1: "(2::rat) powi (- int (bitlen m)) = 1 / 2 ^ bitlen m"
    by (simp only: power_int_minus power_int_of_nat inverse_eq_divide)
  from pos have "- int (bitlen m) + 1 = - int (bitlen m - 1)"
    by simp
  then have p2: "(2::rat) powi (- int (bitlen m) + 1) = 1 / 2 ^ (bitlen m - 1)"
    by (simp only: power_int_minus power_int_of_nat inverse_eq_divide)
  from low high show ?thesis
    unfolding e by (simp only: p1 p2)
qed

text \<open>\<open>round_half_even\<close> is within a half of its argument, and leaves an integer as it is.\<close>

lemma round_half_even_near: "\<bar>of_int (round_half_even x) - x\<bar> \<le> 1 / 2"
proof -
  define n where "n = \<lfloor>x\<rfloor>"
  have b: "of_int n \<le> x" "x < of_int n + 1"
    unfolding n_def by linarith+
  consider "x - of_int n < 1 / 2" | "1 / 2 < x - of_int n" | "x - of_int n = 1 / 2"
    by linarith
  then show ?thesis
  proof cases
    case 1
    then have "round_half_even x = n"
      by (simp add: round_half_even_def Let_def n_def)
    with 1 b show ?thesis
      by simp
  next
    case 2
    then have "round_half_even x = n + 1"
      by (simp add: round_half_even_def Let_def n_def)
    with 2 b show ?thesis
      by simp
  next
    case 3
    then have "round_half_even x = n \<or> round_half_even x = n + 1"
      by (simp add: round_half_even_def Let_def n_def)
    with 3 b show ?thesis
      by auto
  qed
qed

lemma round_half_even_of_int: "round_half_even (of_int z) = z"
  by (simp add: round_half_even_def)

text \<open>
  A finite result of \<open>round_to\<close> keeps the sign and is within half a unit in the last place
  of the magnitude rounded.
\<close>

lemma round_to_near:
  assumes "0 < q" and "round_to f s q = Finite t r"
  shows "t = s \<and> \<bar>r - q\<bar>
           \<le> 2 powi (max (floor_log2 q) (1 - emax f) - int (precision f) + 1) / 2"
proof -
  define ulp :: rat where "ulp = 2 powi (max (floor_log2 q) (1 - emax f) - int (precision f) + 1)"
  have pos: "0 < ulp"
    unfolding ulp_def by simp
  from assms have r: "t = s" "r = of_int (round_half_even (q / ulp)) * ulp"
    by (simp_all add: round_to_def Let_def ulp_def split: if_splits)
  have "r - q = (of_int (round_half_even (q / ulp)) - q / ulp) * ulp"
    using pos by (simp add: r(2) field_simps)
  then have "\<bar>r - q\<bar> = \<bar>of_int (round_half_even (q / ulp)) - q / ulp\<bar> * ulp"
    using pos by (simp add: abs_mult)
  also have "\<dots> \<le> 1 / 2 * ulp"
    using round_half_even_near [of "q / ulp"] pos by (simp only: mult_right_mono less_imp_le)
  finally show ?thesis
    using r(1) by (simp add: ulp_def)
qed

text \<open>
  A natural number below \<open>2 ^ precision\<close> is a value of the format: rounding leaves it as it
  is. So a frame count below \<open>2 ^ 24\<close> is converted to \<open>float\<close> exactly, one below \<open>2 ^ 53\<close>
  is converted to \<open>double\<close> exactly, and every \<open>unsigned int\<close> is converted to \<open>double\<close>
  exactly. A larger frame count is rounded: \<open>2 ^ 53 + 1\<close> becomes the number \<open>2 ^ 53\<close>.
\<close>

lemma round_to_exact:
  assumes "n < 2 ^ precision f" and "int (precision f) \<le> emax f + 1" and "1 \<le> emax f"
  shows "round_to f s (of_nat n) = Finite s (of_nat n)"
proof (cases "n = 0")
  case True
  then show ?thesis
    by (simp add: round_to_def)
next
  case False
  then have n: "0 < n"
    by simp
  define p where "p = precision f"
  from bitlen_bounds [OF n] have k: "2 ^ (bitlen n - 1) \<le> n" "n < 2 ^ bitlen n"
    by simp_all
  from n have pos: "0 < bitlen n"
    by (simp add: bitlen.simps [of n])
  have "(2::nat) ^ (bitlen n - 1) < 2 ^ p"
    using k(1) assms(1) unfolding p_def by (rule le_less_trans)
  then have small: "bitlen n - 1 < p"
    by simp
  define d where "d = p - 1 - (bitlen n - 1)"
  have q1: "(1::rat) \<le> of_nat n"
    using n by simp
  have e: "floor_log2 (of_nat n) = int (bitlen n) - 1"
    using q1 by (simp add: floor_log2_def)
  have "max (floor_log2 (of_nat n)) (1 - emax f) - int p + 1 = - int d"
    using pos small assms(3) unfolding e d_def by simp
  then have ulp: "(2::rat) powi (max (floor_log2 (of_nat n)) (1 - emax f) - int (precision f) + 1)
      = 1 / 2 ^ d"
    unfolding p_def by (simp only: power_int_minus power_int_of_nat inverse_eq_divide)
  have quot: "(of_nat n :: rat) / (1 / 2 ^ d) = of_int (int (n * 2 ^ d))"
    by simp
  have restore: "(of_int (int (n * 2 ^ d)) :: rat) * (1 / 2 ^ d) = of_nat n"
    by simp
  have "(of_nat n :: rat) < of_nat (2 ^ p)"
    using assms(1) unfolding p_def by (simp only: of_nat_less_iff)
  also have "\<dots> = 2 powi int p"
    by simp
  also have "\<dots> \<le> 2 powi (emax f + 1)"
    using assms(2) unfolding p_def by (intro power_int_increasing) simp_all
  finally have fits: "\<not> 2 powi (emax f + 1) \<le> (of_nat n :: rat)"
    by simp
  from n have "(of_nat n :: rat) \<noteq> 0"
    by simp
  then show ?thesis
    unfolding round_to_def Let_def ulp quot round_half_even_of_int restore
    using fits by simp
qed

lemma float_of_uint64_exact:
  "unat n < 2 ^ 24 \<Longrightarrow> float_of_uint64 n = Finite False (of_nat (unat n))"
  unfolding float_of_uint64_def by (rule round_to_exact) (simp_all add: binary32_def)

lemma double_of_uint64_exact:
  "unat n < 2 ^ 53 \<Longrightarrow> double_of_uint64 n = Finite False (of_nat (unat n))"
  unfolding double_of_uint64_def by (rule round_to_exact) (simp_all add: binary64_def)

lemma double_of_unsigned_exact: "double_of_unsigned n = Finite False (of_nat (unat n))"
proof -
  have "unat n < 2 ^ 32"
    using unsigned_less [of n] by simp
  then have "unat n < 2 ^ 53"
    by simp
  then show ?thesis
    unfolding double_of_unsigned_def by (intro round_to_exact) (simp_all add: binary64_def)
qed

lemma double_of_uint64_rounds:
  "double_of_uint64 9007199254740993 = Finite False 9007199254740992"
  by (simp add: double_of_uint64_def round_to_def floor_log2_def bitlen.simps binary64_def
      round_half_even_def Let_def floor_rat_numeral)

text \<open>Any value over a zero is an infinity or not a number.\<close>

lemma float_div_by_zero: "is_zero y \<Longrightarrow> \<not> is_finite (float_div x y)"
  by (cases x; cases y) simp_all

text \<open>
  The quotient of two finite values that are not zero, when finite, is within half a unit in
  the last place of the quotient of the two magnitudes.
\<close>

lemma float_div_near:
  assumes "0 < x" "0 < y" and "float_div (Finite s x) (Finite t y) = Finite u r"
  shows "\<bar>r - x / y\<bar> \<le> 2 powi (max (floor_log2 (x / y)) (- 126) - 23) / 2"
  using round_to_near [of "x / y" binary32 "s \<noteq> t" u r] assms
  by (simp add: binary32_def)

subsection \<open>Traces\<close>

lemma trace_log [simp]: "trace (log e w) = trace w @ [e]"
  by (simp add: log_def)

lemma trace_logs [simp]: "trace (logs es w) = trace w @ es"
  by (simp add: logs_def)

lemma queues_log [simp]:
  "read_queue (log e w) = read_queue w" "process_queue (log e w) = process_queue w"
  by (simp_all add: log_def)

lemma queues_logs [simp]:
  "read_queue (logs es w) = read_queue w" "process_queue (logs es w) = process_queue w"
  by (simp_all add: logs_def)

lemma trace_submit_decode [simp]: "trace (submit_decode j w) = trace w @ [Submit DecodeJob]"
  by (simp add: submit_decode_def)

lemma trace_submit_read [simp]: "trace (submit_read j w) = trace w @ [Submit ReadJob]"
  by (simp add: submit_read_def)

lemma trace_ReadComplete_exit [simp]:
  "trace (ReadComplete_exit result job w) =
     trace w @ (if result \<noteq> S_OK \<and> job \<noteq> None then [Release DecodeJob] else [])
       @ [Release ReadJob]"
  by (simp add: ReadComplete_exit_def)

lemma process_queue_ReadComplete_exit [simp]:
  "process_queue (ReadComplete_exit result job w) = process_queue w"
  by (simp add: ReadComplete_exit_def)

subsection \<open>The PPM writer\<close>

lemma length_concat_rgb: "length (concat (map (rgb_of_pixel d) xs)) = 3 * length xs"
  by (induction xs) (simp_all add: rgb_of_pixel_def)

lemma offset_red:
  fixes i :: "32 word"
  assumes "unat i < 2 ^ 30"
  shows "unat (i * 4) = 4 * unat i"
proof -
  have "unat (i * 4) = unat i * unat (4 :: 32 word)"
    by (rule unat_mult_lem [THEN iffD1]) (use assms in simp)
  then show ?thesis by simp
qed

lemma offset_green:
  fixes i :: "32 word"
  assumes "unat i < 2 ^ 30"
  shows "unat (i * 4 + 1) = 4 * unat i + 1"
proof -
  have "unat (i * 4 + 1) = unat (i * 4) + unat (1 :: 32 word)"
    by (rule unat_add_lem [THEN iffD1]) (use assms in \<open>simp add: offset_red [OF assms]\<close>)
  then show ?thesis by (simp add: offset_red [OF assms])
qed

lemma offset_blue:
  fixes i :: "32 word"
  assumes "unat i < 2 ^ 30"
  shows "unat (i * 4 + 2) = 4 * unat i + 2"
proof -
  have "unat (i * 4 + 2) = unat (i * 4) + unat (2 :: 32 word)"
    by (rule unat_add_lem [THEN iffD1]) (use assms in \<open>simp add: offset_red [OF assms]\<close>)
  then show ?thesis by (simp add: offset_red [OF assms])
qed

text \<open>As long as no offset wraps, the loop appends the three colour bytes of each pixel left.\<close>

lemma ppm_loop_no_wrap:
  "unat n \<le> 2 ^ 30 \<Longrightarrow> i \<le> n \<Longrightarrow>
   ppm_loop rgba n i out = out @ concat (map (rgb_of_pixel rgba) [unat i..<unat n])"
proof (induction rgba n i out rule: ppm_loop.induct)
  case (1 rgba n i out)
  show ?case
  proof (cases "i < n")
    case True
    then have lt: "unat i < unat n"
      by (simp add: word_less_nat_alt)
    from True have suc: "unat (i + 1) = Suc (unat i)"
      by unat_arith
    from True have le: "i + 1 \<le> n"
      by (rule inc_le)
    from lt "1.prems"(1) have small: "unat i < 2 ^ 30"
      by simp
    have "ppm_loop rgba n i out =
        ppm_loop rgba n (i + 1)
          (out @ [rgba (unat (i * 4 + 0)), rgba (unat (i * 4 + 1)), rgba (unat (i * 4 + 2))])"
      using True by (subst ppm_loop.simps) simp
    also have "\<dots> =
        (out @ [rgba (unat (i * 4 + 0)), rgba (unat (i * 4 + 1)), rgba (unat (i * 4 + 2))])
          @ concat (map (rgb_of_pixel rgba) [unat (i + 1)..<unat n])"
      using "1.IH" [OF True "1.prems"(1) le] .
    also have "\<dots> = out @ concat (map (rgb_of_pixel rgba) [unat i..<unat n])"
      using lt
      by (simp add: suc upt_conv_Cons rgb_of_pixel_def
          offset_red [OF small] offset_green [OF small] offset_blue [OF small])
    finally show ?thesis .
  next
    case False
    with "1.prems"(2) have "i = n"
      by simp
    then show ?thesis
      by (subst ppm_loop.simps) simp
  qed
qed

text \<open>
  For an image of at most \<open>2 ^ 30\<close> pixels the file is the header followed by the colour
  bytes of every pixel in order, with no alpha byte.
\<close>

lemma write_ppm_no_wrap:
  assumes "unat width * unat height \<le> 2 ^ 30"
  shows "write_ppm True width height data = Some (ppm_expected width height data)"
proof -
  from assms have prod: "unat (width * height) = unat width * unat height"
    by (simp add: unat_mult_lem [THEN iffD1])
  with assms have "unat (width * height) \<le> 2 ^ 30"
    by simp
  then show ?thesis
    by (simp add: write_ppm_def ppm_expected_def ppm_loop_no_wrap prod)
qed

lemma ppm_loop_done: "ppm_loop rgba 0 0 out = out"
  by (subst ppm_loop.simps) simp

text \<open>
  Claim C9 (every \<open>width * height\<close> image is written as header plus the three colour bytes
  of each pixel) fails on the code for large images: the loop bound is computed in
  \<open>unsigned int\<close>. A 65536 by 65536 image has a bound of 0, so only the header is written,
  where the claim asks for \<open>3 * 2 ^ 32\<close> more bytes.
\<close>

theorem write_ppm_wraps_at_65536_squared:
  "write_ppm True 65536 65536 data = Some (ppm_header 65536 65536)
   \<and> length (ppm_expected 65536 65536 data) = length (ppm_header 65536 65536) + 3 * 2 ^ 32"
proof -
  have wrap: "(65536 :: 32 word) * 65536 = 0"
    by simp
  show ?thesis
    unfolding write_ppm_def ppm_expected_def wrap
    by (simp add: ppm_loop_done length_concat_rgb)
qed

subsection \<open>The read-completion callback\<close>

text \<open>When a step before the submit fails, the chain ends with a failure and submits nothing.\<close>

lemma chain_fails:
  assumes "read_step_fails c"
  shows "\<exists>result job w'. ReadComplete_chain w c = Some (result, job, w') \<and> result \<noteq> S_OK
           \<and> count_list (trace w') (Submit DecodeJob) = count_list (trace w) (Submit DecodeJob)
           \<and> process_queue w' = process_queue w"
  using assms
  by (cases c)
    (auto simp: read_step_fails_def ReadComplete_chain_def Let_def split: option.splits prod.splits)

text \<open>
  Claim C3. In the read-completion callback of each of the three programs, when the read
  status, \<^verbatim>\<open>SetResourceFormat\<close> or \<^verbatim>\<open>CreateJobDecodeAndProcessFrame\<close> fails, the callback
  returns without calling \<^verbatim>\<open>Submit\<close> on a decode job: the number of such calls in the
  trace is unchanged, and the pipeline is owed no new process completion.
\<close>

theorem failed_read_step_submits_no_decode_job:
  assumes "read_step_fails c"
  shows "(\<exists>cb' w'. ReadComplete_extract cb w c = Some (cb', w')
            \<and> count_list (trace w') (Submit DecodeJob) = count_list (trace w) (Submit DecodeJob)
            \<and> process_queue w' = process_queue w)
       \<and> (\<exists>g' w'. ReadComplete_extractor g w c = Some (g', w')
            \<and> count_list (trace w') (Submit DecodeJob) = count_list (trace w) (Submit DecodeJob)
            \<and> process_queue w' = process_queue w)
       \<and> (\<exists>cb' w'. ReadComplete_addon cb w c = Some (cb', w')
            \<and> count_list (trace w') (Submit DecodeJob) = count_list (trace w) (Submit DecodeJob)
            \<and> process_queue w' = process_queue w)"
proof (intro conjI)
  show "\<exists>cb' w'. ReadComplete_extract cb w c = Some (cb', w')
            \<and> count_list (trace w') (Submit DecodeJob) = count_list (trace w) (Submit DecodeJob)
            \<and> process_queue w' = process_queue w"
    using assms
    by (cases c) (auto simp: read_step_fails_def ReadComplete_extract_def Let_def
        split: option.splits prod.splits)
next
  from chain_fails [OF assms, of w] obtain result job w1 where
    chain: "ReadComplete_chain w c = Some (result, job, w1)" and
    same: "count_list (trace w1) (Submit DecodeJob) = count_list (trace w) (Submit DecodeJob)"
      "process_queue w1 = process_queue w"
    by blast
  show "\<exists>g' w'. ReadComplete_extractor g w c = Some (g', w')
            \<and> count_list (trace w') (Submit DecodeJob) = count_list (trace w) (Submit DecodeJob)
            \<and> process_queue w' = process_queue w"
    by (simp add: ReadComplete_extractor_def chain same)
  show "\<exists>cb' w'. ReadComplete_addon cb w c = Some (cb', w')
            \<and> count_list (trace w') (Submit DecodeJob) = count_list (trace w) (Submit DecodeJob)
            \<and> process_queue w' = process_queue w"
    by (simp add: ReadComplete_addon_def chain same)
qed

theorem failed_read_step_witness:
  "read_step_fails (S_OK, Some frame_format_fails)
   \<and> ((\<exists>cb' w'. ReadComplete_extract new_BRAWCallback world0 (S_OK, Some frame_format_fails)
              = Some (cb', w')
            \<and> count_list (trace w') (Submit DecodeJob) = count_list (trace world0) (Submit DecodeJob)
            \<and> process_queue w' = process_queue world0)
       \<and> (\<exists>g' w'. ReadComplete_extractor globals0 world0 (S_OK, Some frame_format_fails)
              = Some (g', w')
            \<and> count_list (trace w') (Submit DecodeJob) = count_list (trace world0) (Submit DecodeJob)
            \<and> process_queue w' = process_queue world0)
       \<and> (\<exists>cb' w'. ReadComplete_addon new_BRAWCallback world0 (S_OK, Some frame_format_fails)
              = Some (cb', w')
            \<and> count_list (trace w') (Submit DecodeJob) = count_list (trace world0) (Submit DecodeJob)
            \<and> process_queue w' = process_queue world0))"
proof
  show fails: "read_step_fails (S_OK, Some frame_format_fails)"
    by (simp add: read_step_fails_def frame_format_fails_def)
  show "(\<exists>cb' w'. ReadComplete_extract new_BRAWCallback world0 (S_OK, Some frame_format_fails)
              = Some (cb', w')
            \<and> count_list (trace w') (Submit DecodeJob) = count_list (trace world0) (Submit DecodeJob)
            \<and> process_queue w' = process_queue world0)
       \<and> (\<exists>g' w'. ReadComplete_extractor globals0 world0 (S_OK, Some frame_format_fails)
              = Some (g', w')
            \<and> count_list (trace w') (Submit DecodeJob) = count_list (trace world0) (Submit DecodeJob)
            \<and> process_queue w' = process_queue world0)
       \<and> (\<exists>cb' w'. ReadComplete_addon new_BRAWCallback world0 (S_OK, Some frame_format_fails)
              = Some (cb', w')
            \<and> count_list (trace w') (Submit DecodeJob) = count_list (trace world0) (Submit DecodeJob)
            \<and> process_queue w' = process_queue world0)"
    by (rule failed_read_step_submits_no_decode_job [OF fails])
qed

text \<open>On a completion that keeps the pointer contract, the chain itself releases no read job.\<close>

lemma chain_defined:
  assumes "read_completion_defined c"
  shows "\<exists>result job w'. ReadComplete_chain w c = Some (result, job, w')
           \<and> count_list (trace w') (Release ReadJob) = count_list (trace w) (Release ReadJob)"
  using assms
  by (cases c)
    (auto simp: read_completion_defined_def ReadComplete_chain_def Let_def
      split: option.splits prod.splits)

text \<open>
  Claim C5. On every path of the read-completion callback of each of the three programs
  (bad read status, format failure, job creation failure, submit failure, success) the
  callback returns, and it has released the read job exactly once: the trace has one more
  \<open>Release ReadJob\<close> than before the call.
\<close>

theorem read_job_released_once:
  assumes "read_completion_defined c"
  shows "(\<exists>cb' w'. ReadComplete_extract cb w c = Some (cb', w')
            \<and> count_list (trace w') (Release ReadJob) = count_list (trace w) (Release ReadJob) + 1)
       \<and> (\<exists>g' w'. ReadComplete_extractor g w c = Some (g', w')
            \<and> count_list (trace w') (Release ReadJob) = count_list (trace w) (Release ReadJob) + 1)
       \<and> (\<exists>cb' w'. ReadComplete_addon cb w c = Some (cb', w')
            \<and> count_list (trace w') (Release ReadJob) = count_list (trace w) (Release ReadJob) + 1)"
proof -
  have cli: "\<exists>cb' w'. ReadComplete_extract cb w c = Some (cb', w')
      \<and> count_list (trace w') (Release ReadJob) = count_list (trace w) (Release ReadJob) + 1"
    using assms
    by (cases c) (auto simp: read_completion_defined_def ReadComplete_extract_def Let_def
        split: option.splits prod.splits)
  obtain result job w1 where
    chain: "ReadComplete_chain w c = Some (result, job, w1)" and
    same: "count_list (trace w1) (Release ReadJob) = count_list (trace w) (Release ReadJob)"
    using chain_defined [OF assms, of w] by blast
  have "\<exists>g' w'. ReadComplete_extractor g w c = Some (g', w')
      \<and> count_list (trace w') (Release ReadJob) = count_list (trace w) (Release ReadJob) + 1"
    by (simp add: ReadComplete_extractor_def chain same)
  moreover have "\<exists>cb' w'. ReadComplete_addon cb w c = Some (cb', w')
      \<and> count_list (trace w') (Release ReadJob) = count_list (trace w) (Release ReadJob) + 1"
    by (simp add: ReadComplete_addon_def chain same)
  ultimately show ?thesis
    using cli by blast
qed

theorem read_job_released_once_witness:
  "read_completion_defined (S_OK, Some frame_ok)
   \<and> ((\<exists>cb' w'. ReadComplete_extract new_BRAWCallback world0 (S_OK, Some frame_ok) = Some (cb', w')
            \<and> count_list (trace w') (Release ReadJob)
                = count_list (trace world0) (Release ReadJob) + 1)
       \<and> (\<exists>g' w'. ReadComplete_extractor globals0 world0 (S_OK, Some frame_ok) = Some (g', w')
            \<and> count_list (trace w') (Release ReadJob)
                = count_list (trace world0) (Release ReadJob) + 1)
       \<and> (\<exists>cb' w'. ReadComplete_addon new_BRAWCallback world0 (S_OK, Some frame_ok) = Some (cb', w')
            \<and> count_list (trace w') (Release ReadJob)
                = count_list (trace world0) (Release ReadJob) + 1))"
proof -
  have defined: "read_completion_defined (S_OK, Some frame_ok)"
    by (simp add: read_completion_defined_def frame_ok_def)
  from defined read_job_released_once [OF defined, of new_BRAWCallback world0 globals0]
  show ?thesis
    by (rule conjI)
qed

subsection \<open>The index check\<close>

lemma world0_simps [simp]:
  "trace world0 = []" "read_queue world0 = []" "process_queue world0 = []"
  by (simp_all add: world0_def)

lemma delete_BRAWCallback_job_calls [simp]:
  "filter is_job_call (trace (delete_BRAWCallback cb w)) = filter is_job_call (trace w)"
  "read_queue (delete_BRAWCallback cb w) = read_queue w"
  "process_queue (delete_BRAWCallback cb w) = process_queue w"
  by (simp_all add: delete_BRAWCallback_def split: option.splits)

text \<open>A word read as signed is never above the same word read as unsigned.\<close>

lemma sint_le_uint: "sint x \<le> uint x" for x :: "'a::len word"
proof -
  have "- (2 ^ (LENGTH('a) - Suc 0)) \<le> (0 :: int)"
    by simp
  also have "0 \<le> uint x"
    by simp
  finally show ?thesis
    by (simp add: sint_uint signed_take_bit_int_less_eq_self_iff)
qed

lemma uint_ucast_le: "uint (ucast x :: 'b::len word) \<le> uint x" for x :: "'a::len word"
  by (simp add: unsigned_ucast_eq take_bit_int_less_eq_self_iff)

text \<open>
  The casts \<^verbatim>\<open>(int)frame_count\<close> and \<^verbatim>\<open>(long)frame_count\<close> never let through an index
  that is at or above the frame count.
\<close>

lemma cast_int_check:
  fixes frame_count :: "64 word" and frame_index :: "32 word"
  assumes "uint frame_count \<le> sint frame_index"
  shows "sint (ucast frame_count :: 32 word) \<le> sint frame_index"
proof -
  have "sint (ucast frame_count :: 32 word) \<le> uint (ucast frame_count :: 32 word)"
    by (rule sint_le_uint)
  also have "\<dots> \<le> uint frame_count"
    by (rule uint_ucast_le)
  finally show ?thesis
    using assms by simp
qed

lemma cast_long_check:
  fixes frame_count frame_index :: "64 word"
  assumes "uint frame_count \<le> sint frame_index"
  shows "sint frame_count \<le> sint frame_index"
  using sint_le_uint [of frame_count] assms by simp

lemma out_of_range_extract:
  fixes frame_index :: "32 word"
  assumes "factory_CreateCodec factory = (S_OK, Some cdc)"
    and "codec_OpenClip cdc input_path = (S_OK, Some c)"
    and "sint frame_index < 0 \<or> uint (after_getter 0 (clip_GetFrameCount c)) \<le> sint frame_index"
  shows "\<exists>cb w. extract_frame_extract g (Some factory) can_open input_path frame_index
          = Some ((cli_failure (Frame_out_of_range (sint frame_index)
                      (after_getter 0 (clip_GetFrameCount c) - 1)), None), cb, w)
        \<and> filter is_job_call (trace w) = [] \<and> read_queue w = [] \<and> process_queue w = []"
proof -
  from assms(3) have check:
    "sint frame_index < 0
      \<or> sint (ucast (after_getter 0 (clip_GetFrameCount c)) :: 32 word) \<le> sint frame_index"
    using cast_int_check by blast
  show ?thesis
    using check
    by (simp add: extract_frame_extract_def checked_def assms(1,2) fail_extract_def Let_def
        split: option.splits)
qed

lemma out_of_range_extractor:
  fixes frame_index :: "64 word"
  assumes "factory_CreateCodec factory = (S_OK, Some cdc)"
    and "codec_OpenClip cdc input_path = (S_OK, Some c)"
    and "sint frame_index < 0 \<or> uint (after_getter 0 (clip_GetFrameCount c)) \<le> sint frame_index"
  shows "\<exists>g' w. extract_frame_extractor g (Some factory) can_open input_path frame_index
          = Some ((cli_failure (Frame_out_of_range (sint frame_index)
                      (after_getter 0 (clip_GetFrameCount c) - 1)), g'), w)
        \<and> filter is_job_call (trace w) = [] \<and> read_queue w = [] \<and> process_queue w = []"
proof -
  from assms(3) have check:
    "sint frame_index < 0 \<or> sint (after_getter 0 (clip_GetFrameCount c)) \<le> sint frame_index"
    using cast_long_check by blast
  show ?thesis
    using check
    by (simp add: extract_frame_extractor_def assms(1,2) leave_extractor_def Let_def
        exit_status_def release_all_def cli_failure_def)
qed

lemma out_of_range_addon:
  fixes frameIndex :: "64 word"
  assumes "factory_CreateCodec factory = (S_OK, Some cdc)"
    and "codec_OpenClip cdc filePath = (S_OK, Some c)"
    and "sint frameIndex < 0 \<or> uint (after_getter 0 (clip_GetFrameCount c)) \<le> sint frameIndex"
  shows "\<exists>w. ExtractFrame_addon (Some factory) filePath frameIndex
          = Some (Napi_failure Frame_index_out_of_range, w)
        \<and> filter is_job_call (trace w) = [] \<and> read_queue w = [] \<and> process_queue w = []"
proof -
  from assms(3) have check:
    "sint frameIndex < 0 \<or> sint (after_getter 0 (clip_GetFrameCount c)) \<le> sint frameIndex"
    using cast_long_check by blast
  show ?thesis
    using check
    by (simp add: ExtractFrame_addon_def assms(1,2) leave_addon_def Let_def
        release_all_def new_BRAWCallback_def delete_BRAWCallback_def)
qed

text \<open>
  Claim C2. On an open clip, a frame index that is negative or at least the frame count
  (the count the program read, as an unsigned number) makes each of the three frame
  operations fail with its out-of-range error, whose stage is \<open>FrameIndexOutOfRange\<close>. The
  trace then holds no call that creates or submits a job, read or decode, and the pipeline
  is owed no completion. The index is an \<open>int\<close> in braw-extract.cpp and a \<open>long\<close> in the
  other two programs.
\<close>

theorem out_of_range_index_submits_no_job:
  fixes frame_index :: "32 word" and long_index :: "64 word"
  assumes "factory_CreateCodec factory = (S_OK, Some cdc)"
    and "codec_OpenClip cdc path = (S_OK, Some c)"
    and "sint frame_index < 0 \<or> uint (after_getter 0 (clip_GetFrameCount c)) \<le> sint frame_index"
    and "sint long_index < 0 \<or> uint (after_getter 0 (clip_GetFrameCount c)) \<le> sint long_index"
  shows "(\<exists>e cb w. extract_frame_extract g_callback (Some factory) can_open path frame_index
            = Some ((cli_failure e, None), cb, w)
          \<and> e = Frame_out_of_range (sint frame_index) (after_getter 0 (clip_GetFrameCount c) - 1)
          \<and> stage_of e = Some FrameIndexOutOfRange
          \<and> filter is_job_call (trace w) = [] \<and> read_queue w = [] \<and> process_queue w = [])
       \<and> (\<exists>e g' w. extract_frame_extractor g (Some factory) can_open path long_index
            = Some ((cli_failure e, g'), w)
          \<and> e = Frame_out_of_range (sint long_index) (after_getter 0 (clip_GetFrameCount c) - 1)
          \<and> stage_of e = Some FrameIndexOutOfRange
          \<and> filter is_job_call (trace w) = [] \<and> read_queue w = [] \<and> process_queue w = [])
       \<and> (\<exists>e w. ExtractFrame_addon (Some factory) path long_index = Some (Napi_failure e, w)
          \<and> e = Frame_index_out_of_range
          \<and> stage_of e = Some FrameIndexOutOfRange
          \<and> filter is_job_call (trace w) = [] \<and> read_queue w = [] \<and> process_queue w = [])"
  using out_of_range_extract [OF assms(1,2,3), of g_callback can_open]
    out_of_range_extractor [OF assms(1,2,4), of g can_open]
    out_of_range_addon [OF assms(1,2,4)]
  by auto

theorem out_of_range_index_witness:
  "factory_CreateCodec (factory_stub (clip_with read_job_ok))
     = (S_OK, Some (codec_stub (clip_with read_job_ok)))
   \<and> codec_OpenClip (codec_stub (clip_with read_job_ok)) ''clip.braw''
     = (S_OK, Some (clip_with read_job_ok))
   \<and> uint (after_getter 0 (clip_GetFrameCount (clip_with read_job_ok))) \<le> sint (10 :: 32 word)
   \<and> sint (- 1 :: 64 word) < 0
   \<and> (\<exists>cb w. extract_frame_extract None (Some (factory_stub (clip_with read_job_ok))) True
            ''clip.braw'' 10
          = Some ((cli_failure (Frame_out_of_range 10 9), None), cb, w)
        \<and> filter is_job_call (trace w) = [])
   \<and> (\<exists>g' w. extract_frame_extractor globals0 (Some (factory_stub (clip_with read_job_ok))) True
            ''clip.braw'' (- 1)
          = Some ((cli_failure (Frame_out_of_range (- 1) 9), g'), w)
        \<and> filter is_job_call (trace w) = [])
   \<and> (\<exists>w. ExtractFrame_addon (Some (factory_stub (clip_with read_job_ok))) ''clip.braw'' (- 1)
          = Some (Napi_failure Frame_index_out_of_range, w)
        \<and> filter is_job_call (trace w) = [])"
proof -
  have created: "factory_CreateCodec (factory_stub (clip_with read_job_ok))
      = (S_OK, Some (codec_stub (clip_with read_job_ok)))"
    by (simp add: factory_stub_def)
  have opened: "codec_OpenClip (codec_stub (clip_with read_job_ok)) ''clip.braw''
      = (S_OK, Some (clip_with read_job_ok))"
    by (simp add: codec_stub_def)
  have count: "after_getter 0 (clip_GetFrameCount (clip_with read_job_ok)) = 10"
    by (simp add: after_getter_def clip_with_def)
  have above: "uint (after_getter 0 (clip_GetFrameCount (clip_with read_job_ok)))
      \<le> sint (10 :: 32 word)"
    by (simp add: count)
  have below: "sint (- 1 :: 64 word) < 0"
    by simp
  from out_of_range_index_submits_no_job
    [OF created opened disjI2 [OF above] disjI1 [OF below], of None True globals0]
  have "(\<exists>cb w. extract_frame_extract None (Some (factory_stub (clip_with read_job_ok))) True
            ''clip.braw'' 10
          = Some ((cli_failure (Frame_out_of_range 10 9), None), cb, w)
        \<and> filter is_job_call (trace w) = [])
   \<and> (\<exists>g' w. extract_frame_extractor globals0 (Some (factory_stub (clip_with read_job_ok))) True
            ''clip.braw'' (- 1)
          = Some ((cli_failure (Frame_out_of_range (- 1) 9), g'), w)
        \<and> filter is_job_call (trace w) = [])
   \<and> (\<exists>w. ExtractFrame_addon (Some (factory_stub (clip_with read_job_ok))) ''clip.braw'' (- 1)
          = Some (Napi_failure Frame_index_out_of_range, w)
        \<and> filter is_job_call (trace w) = [])"
    by (simp add: count) blast
  with created opened above below show ?thesis
    by blast
qed

subsection \<open>The metadata operation\<close>

text \<open>Once the clip is open, each metadata operation succeeds with the object it builds.\<close>

lemma opened_metadata:
  assumes "factory_CreateCodec factory = (S_OK, Some cdc)"
    and "codec_OpenClip cdc path = (S_OK, Some c)"
  shows "fst (extract_metadata_extract (Some factory) path)
           = \<lparr>return_value = 0, cerr_error = None, cout_success = Some (get_metadata c)\<rparr>"
    and "map_option fst (extract_metadata_extractor (Some factory) path)
           = Some \<lparr>return_value = 0, cerr_error = None, cout_success = Some (get_metadata c)\<rparr>"
    and "map_option fst (ExtractMetadata_addon (Some factory) path)
           = Some (Napi_success (napi_metadata c))"
  by (simp_all add: extract_metadata_extract_def checked_def extract_metadata_extractor_def
      exit_status_def ExtractMetadata_addon_def assms)

lemma stub_opens:
  "factory_CreateCodec (factory_stub c) = (S_OK, Some (codec_stub c))"
  "codec_OpenClip (codec_stub c) path = (S_OK, Some c)"
  "codec_SetCallback (codec_stub c) = S_OK"
  "codec_FlushJobs (codec_stub c) = S_OK"
  "clip_CreateJobReadFrame (clip_with j) i = (S_OK, Some j)"
  "after_getter 0 (clip_GetFrameCount (clip_with j)) = 10"
  by (simp_all add: factory_stub_def codec_stub_def clip_with_def after_getter_def)

text \<open>
  Claim C10, as amended. Once the clip is open, each of the three metadata operations
  reports success, whatever statuses the four getters answer: the statuses are never looked
  at. Each property is reported as the getter left its out-parameter, the value the getter
  wrote or, if it wrote nothing, the zero the variable was initialised with. The addon
  reports each property as a JavaScript number.
\<close>

theorem metadata_ignores_getter_status:
  assumes "factory_CreateCodec factory = (S_OK, Some cdc)"
    and "codec_OpenClip cdc path = (S_OK, Some c)"
    and "clip_GetFrameCount c = (status1, frame_count)"
    and "clip_GetWidth c = (status2, width)"
    and "clip_GetHeight c = (status3, height)"
    and "clip_GetFrameRate c = (status4, frame_rate)"
  shows "(\<exists>md. fst (extract_metadata_extract (Some factory) path)
              = \<lparr>return_value = 0, cerr_error = None, cout_success = Some md\<rparr>
            \<and> md_frame_count md = (case frame_count of None \<Rightarrow> 0 | Some n \<Rightarrow> n)
            \<and> md_width md = (case width of None \<Rightarrow> 0 | Some n \<Rightarrow> n)
            \<and> md_height md = (case height of None \<Rightarrow> 0 | Some n \<Rightarrow> n)
            \<and> md_frame_rate md = (case frame_rate of None \<Rightarrow> Finite False 0 | Some x \<Rightarrow> x))
       \<and> (\<exists>md. map_option fst (extract_metadata_extractor (Some factory) path)
              = Some \<lparr>return_value = 0, cerr_error = None, cout_success = Some md\<rparr>
            \<and> md_frame_count md = (case frame_count of None \<Rightarrow> 0 | Some n \<Rightarrow> n)
            \<and> md_width md = (case width of None \<Rightarrow> 0 | Some n \<Rightarrow> n)
            \<and> md_height md = (case height of None \<Rightarrow> 0 | Some n \<Rightarrow> n)
            \<and> md_frame_rate md = (case frame_rate of None \<Rightarrow> Finite False 0 | Some x \<Rightarrow> x))
       \<and> (\<exists>obj. map_option fst (ExtractMetadata_addon (Some factory) path)
              = Some (Napi_success obj)
            \<and> mo_frame_count obj
                = double_of_uint64 (case frame_count of None \<Rightarrow> 0 | Some n \<Rightarrow> n)
            \<and> mo_width obj = double_of_unsigned (case width of None \<Rightarrow> 0 | Some n \<Rightarrow> n)
            \<and> mo_height obj = double_of_unsigned (case height of None \<Rightarrow> 0 | Some n \<Rightarrow> n)
            \<and> mo_frame_rate obj
                = double_of_float (case frame_rate of None \<Rightarrow> Finite False 0 | Some x \<Rightarrow> x))"
  by (simp add: opened_metadata [OF assms(1,2)] get_metadata_def napi_metadata_def
      after_getter_def assms(3-6) Let_def)

theorem metadata_ignores_getter_status_witness:
  "factory_CreateCodec (factory_stub clip_getters_fail) = (S_OK, Some (codec_stub clip_getters_fail))
   \<and> codec_OpenClip (codec_stub clip_getters_fail) ''clip.braw'' = (S_OK, Some clip_getters_fail)
   \<and> clip_GetFrameCount clip_getters_fail = (S_OK, Some 10)
   \<and> clip_GetWidth clip_getters_fail = (E_FAIL, None)
   \<and> clip_GetHeight clip_getters_fail = (E_FAIL, Some 1080)
   \<and> clip_GetFrameRate clip_getters_fail = (S_OK, Some (Finite False 24))
   \<and> (\<exists>md. fst (extract_metadata_extract (Some (factory_stub clip_getters_fail)) ''clip.braw'')
          = \<lparr>return_value = 0, cerr_error = None, cout_success = Some md\<rparr>
        \<and> md_frame_count md = 10 \<and> md_width md = 0 \<and> md_height md = 1080
        \<and> md_frame_rate md = Finite False 24)
   \<and> (\<exists>md. map_option fst
            (extract_metadata_extractor (Some (factory_stub clip_getters_fail)) ''clip.braw'')
          = Some \<lparr>return_value = 0, cerr_error = None, cout_success = Some md\<rparr>
        \<and> md_frame_count md = 10 \<and> md_width md = 0 \<and> md_height md = 1080
        \<and> md_frame_rate md = Finite False 24)
   \<and> (\<exists>obj. map_option fst
            (ExtractMetadata_addon (Some (factory_stub clip_getters_fail)) ''clip.braw'')
          = Some (Napi_success obj)
        \<and> mo_frame_count obj = double_of_uint64 10 \<and> mo_width obj = double_of_unsigned 0
        \<and> mo_height obj = double_of_unsigned 1080
        \<and> mo_frame_rate obj = double_of_float (Finite False 24))"
proof -
  have getters:
    "clip_GetFrameCount clip_getters_fail = (S_OK, Some 10)"
    "clip_GetWidth clip_getters_fail = (E_FAIL, None)"
    "clip_GetHeight clip_getters_fail = (E_FAIL, Some 1080)"
    "clip_GetFrameRate clip_getters_fail = (S_OK, Some (Finite False 24))"
    by (simp_all add: clip_getters_fail_def clip_with_def)
  from metadata_ignores_getter_status [OF stub_opens(1,2) getters, of "''clip.braw''"]
    stub_opens(1,2) getters
  show ?thesis
    by simp
qed

text \<open>
  Claim C10 as stated (a getter that fails leaves the zero default in the report) fails on
  the code when the failing getter has written its out-parameter: the status is not looked
  at, so what was written is reported. Here the height getter answers \<open>E_FAIL\<close> and the
  three operations report success with the height 1080, not 0.
\<close>

theorem failed_getter_value_is_reported:
  "fst (clip_GetHeight clip_getters_fail) \<noteq> S_OK
   \<and> return_value (fst (extract_metadata_extract (Some (factory_stub clip_getters_fail)) ''clip.braw''))
       = 0
   \<and> map_option md_height
       (cout_success (fst (extract_metadata_extract (Some (factory_stub clip_getters_fail)) ''clip.braw'')))
       = Some 1080
   \<and> map_option (map_option md_height \<circ> cout_success \<circ> fst)
       (extract_metadata_extractor (Some (factory_stub clip_getters_fail)) ''clip.braw'')
       = Some (Some 1080)
   \<and> (\<exists>obj. map_option fst
            (ExtractMetadata_addon (Some (factory_stub clip_getters_fail)) ''clip.braw'')
          = Some (Napi_success obj)
        \<and> mo_height obj = Finite False 1080)
   \<and> (1080 :: 32 word) \<noteq> 0"
proof -
  have height: "after_getter 0 (clip_GetHeight clip_getters_fail) = 1080"
    "fst (clip_GetHeight clip_getters_fail) \<noteq> S_OK"
    by (simp_all add: clip_getters_fail_def after_getter_def)
  have number: "double_of_unsigned 1080 = Finite False 1080"
    by (simp add: double_of_unsigned_exact)
  have cli: "fst (extract_metadata_extract (Some (factory_stub clip_getters_fail)) ''clip.braw'')
      = \<lparr>return_value = 0, cerr_error = None, cout_success = Some (get_metadata clip_getters_fail)\<rparr>"
    by (rule opened_metadata(1) [OF stub_opens(1,2)])
  have sample: "map_option (map_option md_height \<circ> cout_success \<circ> fst)
       (extract_metadata_extractor (Some (factory_stub clip_getters_fail)) ''clip.braw'')
     = Some (Some 1080)"
    using opened_metadata(2) [OF stub_opens(1,2), of clip_getters_fail "''clip.braw''"]
    by (auto simp: get_metadata_def height Let_def)
  have addon: "map_option fst
        (ExtractMetadata_addon (Some (factory_stub clip_getters_fail)) ''clip.braw'')
      = Some (Napi_success (napi_metadata clip_getters_fail))"
    by (rule opened_metadata(3) [OF stub_opens(1,2)])
  have "mo_height (napi_metadata clip_getters_fail) = Finite False 1080"
    by (simp add: napi_metadata_def height number Let_def)
  with cli sample addon height(2) show ?thesis
    by (simp add: get_metadata_def height(1) Let_def) blast
qed

text \<open>
  Claim C8. Once the clip is open, each of the three metadata operations reports as the
  duration the quotient \<^verbatim>\<open>frame_count / frame_rate\<close> of the frame count and the frame rate it
  has just read from the clip, taken in \<open>float\<close>: the frame count is converted to \<open>float\<close> and
  divided by the rate (the addon widens the quotient to a JavaScript number). No operation
  keeps a value from one query to the next. When the frame rate is zero the operation still
  succeeds, and the duration it reports is not finite: an infinity, or not a number.
\<close>

theorem duration_is_frame_count_over_frame_rate:
  assumes "factory_CreateCodec factory = (S_OK, Some cdc)"
    and "codec_OpenClip cdc path = (S_OK, Some c)"
    and "frame_count = after_getter 0 (clip_GetFrameCount c)"
    and "frame_rate = after_getter (Finite False 0) (clip_GetFrameRate c)"
  shows "(\<exists>md. fst (extract_metadata_extract (Some factory) path)
              = \<lparr>return_value = 0, cerr_error = None, cout_success = Some md\<rparr>
            \<and> md_frame_count md = frame_count \<and> md_frame_rate md = frame_rate
            \<and> md_duration md = float_div (float_of_uint64 frame_count) frame_rate
            \<and> (is_zero frame_rate \<longrightarrow> \<not> is_finite (md_duration md)))
       \<and> (\<exists>md. map_option fst (extract_metadata_extractor (Some factory) path)
              = Some \<lparr>return_value = 0, cerr_error = None, cout_success = Some md\<rparr>
            \<and> md_frame_count md = frame_count \<and> md_frame_rate md = frame_rate
            \<and> md_duration md = float_div (float_of_uint64 frame_count) frame_rate
            \<and> (is_zero frame_rate \<longrightarrow> \<not> is_finite (md_duration md)))
       \<and> (\<exists>obj. map_option fst (ExtractMetadata_addon (Some factory) path)
              = Some (Napi_success obj)
            \<and> mo_frame_count obj = double_of_uint64 frame_count
            \<and> mo_frame_rate obj = double_of_float frame_rate
            \<and> mo_duration obj = double_of_float (float_div (float_of_uint64 frame_count) frame_rate)
            \<and> (is_zero frame_rate \<longrightarrow> \<not> is_finite (mo_duration obj)))"
  by (simp add: opened_metadata [OF assms(1,2)] get_metadata_def napi_metadata_def
      assms(3,4) Let_def float_div_by_zero double_of_float_def)

text \<open>
  Two queries: 10 frames at 24 frames a second last 13981013 / 33554432 seconds, the
  \<open>float\<close> nearest to 10 / 24; 10 frames at a rate of zero last infinitely long.
\<close>

lemma float_of_10: "float_of_uint64 10 = Finite False 10"
  by (simp add: float_of_uint64_exact)

lemma round_5_over_12: "round_to binary32 False (5 / 12) = Finite False (13981013 / 33554432)"
proof -
  have "floor_log2 (5 / 12) = - 2"
    by (simp add: floor_log2_def bitlen.simps ceiling_rat_numeral)
  then show ?thesis
    by (simp add: round_to_def binary32_def Let_def round_half_even_def floor_rat_numeral)
qed

theorem duration_witness:
  "factory_CreateCodec (factory_stub (clip_with read_job_ok))
     = (S_OK, Some (codec_stub (clip_with read_job_ok)))
   \<and> codec_OpenClip (codec_stub (clip_with read_job_ok)) ''clip.braw''
     = (S_OK, Some (clip_with read_job_ok))
   \<and> factory_CreateCodec (factory_stub clip_rate_zero) = (S_OK, Some (codec_stub clip_rate_zero))
   \<and> codec_OpenClip (codec_stub clip_rate_zero) ''clip.braw'' = (S_OK, Some clip_rate_zero)
   \<and> is_zero (after_getter (Finite False 0) (clip_GetFrameRate clip_rate_zero))
   \<and> (\<exists>md. fst (extract_metadata_extract (Some (factory_stub (clip_with read_job_ok))) ''clip.braw'')
          = \<lparr>return_value = 0, cerr_error = None, cout_success = Some md\<rparr>
        \<and> md_frame_count md = 10 \<and> md_frame_rate md = Finite False 24
        \<and> md_duration md = Finite False (13981013 / 33554432))
   \<and> (\<exists>md. map_option fst
            (extract_metadata_extractor (Some (factory_stub (clip_with read_job_ok))) ''clip.braw'')
          = Some \<lparr>return_value = 0, cerr_error = None, cout_success = Some md\<rparr>
        \<and> md_duration md = Finite False (13981013 / 33554432))
   \<and> (\<exists>obj. map_option fst
            (ExtractMetadata_addon (Some (factory_stub (clip_with read_job_ok))) ''clip.braw'')
          = Some (Napi_success obj)
        \<and> mo_duration obj = Finite False (13981013 / 33554432))
   \<and> (\<exists>md. fst (extract_metadata_extract (Some (factory_stub clip_rate_zero)) ''clip.braw'')
          = \<lparr>return_value = 0, cerr_error = None, cout_success = Some md\<rparr>
        \<and> md_duration md = Infinity False \<and> \<not> is_finite (md_duration md))
   \<and> (\<exists>md. map_option fst
            (extract_metadata_extractor (Some (factory_stub clip_rate_zero)) ''clip.braw'')
          = Some \<lparr>return_value = 0, cerr_error = None, cout_success = Some md\<rparr>
        \<and> md_duration md = Infinity False \<and> \<not> is_finite (md_duration md))
   \<and> (\<exists>obj. map_option fst
            (ExtractMetadata_addon (Some (factory_stub clip_rate_zero)) ''clip.braw'')
          = Some (Napi_success obj)
        \<and> mo_duration obj = Infinity False \<and> \<not> is_finite (mo_duration obj))"
proof -
  have read:
    "after_getter 0 (clip_GetFrameCount (clip_with read_job_ok)) = 10"
    "after_getter (Finite False 0) (clip_GetFrameRate (clip_with read_job_ok)) = Finite False 24"
    "after_getter 0 (clip_GetFrameCount clip_rate_zero) = 10"
    "after_getter (Finite False 0) (clip_GetFrameRate clip_rate_zero) = Finite False 0"
    by (simp_all add: clip_rate_zero_def clip_with_def after_getter_def)
  note at_24 = duration_is_frame_count_over_frame_rate
    [OF stub_opens(1,2) read(1,2) [symmetric], of "''clip.braw''"]
  note at_0 = duration_is_frame_count_over_frame_rate
    [OF stub_opens(1,2) read(3,4) [symmetric], of "''clip.braw''"]
  from at_24 at_0 stub_opens(1,2) show ?thesis
    by (simp add: read float_of_10 round_5_over_12 double_of_float_def) blast
qed

text \<open>
  What the open stages leave behind when they fail, in the three programs: the error of the
  stage, and a release of every object acquired before it.
\<close>

lemma open_failure_extract:
  "extract_metadata_extract None path
     = (cli_failure Failed_to_create_factory, [CreateFactory])"
  "checked (factory_CreateCodec factory) = None \<Longrightarrow>
     extract_metadata_extract (Some factory) path
       = (cli_failure Failed_to_create_codec, [CreateFactory, CreateCodec, Release Factory])"
  "checked (factory_CreateCodec factory) = Some cdc \<Longrightarrow>
   checked (codec_OpenClip cdc path) = None \<Longrightarrow>
     extract_metadata_extract (Some factory) path
       = (cli_failure (Failed_to_open_clip_at path),
          [CreateFactory, CreateCodec, OpenClip, Release Codec, Release Factory])"
  by (simp_all add: extract_metadata_extract_def)

lemma open_failure_addon:
  "ExtractMetadata_addon None path
     = Some (Napi_failure Failed_to_create_factory, [CreateFactory])"
  "factory_CreateCodec factory = (result, codec) \<Longrightarrow> result \<noteq> S_OK \<Longrightarrow>
     ExtractMetadata_addon (Some factory) path
       = Some (Napi_failure Failed_to_create_codec,
               [CreateFactory, CreateCodec] @ (if codec \<noteq> None then [Release Codec] else [])
                 @ [Release Factory])"
  "factory_CreateCodec factory = (S_OK, Some cdc) \<Longrightarrow>
   codec_OpenClip cdc path = (result, clip) \<Longrightarrow> result \<noteq> S_OK \<Longrightarrow>
     ExtractMetadata_addon (Some factory) path
       = Some (Napi_failure Failed_to_open_clip,
               [CreateFactory, CreateCodec, OpenClip]
                 @ (if clip \<noteq> None then [Release Clip] else [])
                 @ [Release Codec, Release Factory])"
  by (simp_all add: ExtractMetadata_addon_def release_all_def)

lemma open_failure_extractor:
  "factory_CreateCodec factory = (result, codec) \<Longrightarrow> result \<noteq> S_OK \<Longrightarrow>
     extract_metadata_extractor (Some factory) path
       = Some (cli_failure Failed_to_create_codec,
               [CreateFactory, CreateCodec] @ (if codec \<noteq> None then [Release Codec] else [])
                 @ [Release Factory])"
  "factory_CreateCodec factory = (S_OK, Some cdc) \<Longrightarrow>
   codec_OpenClip cdc path = (result, clip) \<Longrightarrow> result \<noteq> S_OK \<Longrightarrow>
     extract_metadata_extractor (Some factory) path
       = Some (cli_failure Failed_to_open_clip,
               [CreateFactory, CreateCodec, OpenClip]
                 @ (if clip \<noteq> None then [Release Clip] else [])
                 @ [Release Codec, Release Factory])"
  by (simp_all add: extract_metadata_extractor_def release_all_def cli_failure_def exit_status_def)

text \<open>
  Claim C7 (the open operation fails with \<open>FactoryUnavailable\<close> when the factory cannot
  be created) fails on braw-extractor.cpp: with no factory, \<^verbatim>\<open>extract_metadata\<close> and
  \<^verbatim>\<open>extract_frame\<close> print the error and return 0, the status of success, since \<open>result\<close>
  is still \<open>S_OK\<close>. braw-extract.cpp returns 1 there and the addon reports a failure.
\<close>

theorem extractor_returns_success_without_factory:
  "extract_metadata_extractor None input_path
     = Some (\<lparr>return_value = 0, cerr_error = Some Failed_to_create_factory, cout_success = None\<rparr>,
             [CreateFactory])
   \<and> map_option (fst \<circ> fst) (extract_frame_extractor g None can_open input_path frame_index)
     = Some \<lparr>return_value = 0, cerr_error = Some Failed_to_create_factory, cout_success = None\<rparr>
   \<and> fst (extract_metadata_extract None input_path)
     = \<lparr>return_value = 1, cerr_error = Some Failed_to_create_factory, cout_success = None\<rparr>
   \<and> map_option fst (ExtractMetadata_addon None input_path)
     = Some (Napi_failure Failed_to_create_factory)"
  by (simp add: extract_metadata_extractor_def exit_status_def release_all_def
      extract_frame_extractor_def leave_extractor_def
      extract_metadata_extract_def cli_failure_def ExtractMetadata_addon_def)

subsection \<open>Reaching the drain\<close>

lemma world_eq_iff:
  "w = w' \<longleftrightarrow>
     trace w = trace w' \<and> read_queue w = read_queue w' \<and> process_queue w = process_queue w'"
  for w w' :: world
  by (cases w; cases w') auto

lemma world_before_call_simps [simp]:
  "CreateJobDecodeAndProcessFrame \<notin> set (trace (world_before_call g))"
  "Submit DecodeJob \<notin> set (trace (world_before_call g))"
  "read_queue (world_before_call g) = []" "process_queue (world_before_call g) = []"
  by (simp_all add: world_before_call_def delete_BRAWCallback_def split: option.splits)

text \<open>
  With the clip open, the index accepted, the callback set and the read job created and
  accepted, each frame operation is its drain followed by what it does after the drain.
\<close>

lemma reach_extract:
  assumes "factory_CreateCodec factory = (S_OK, Some cdc)"
    and "codec_OpenClip cdc input_path = (S_OK, Some c)"
    and "0 \<le> sint frame_index"
      "sint frame_index < sint (ucast (after_getter 0 (clip_GetFrameCount c)) :: 32 word)"
    and "codec_SetCallback cdc = S_OK"
    and "clip_CreateJobReadFrame c (scast frame_index) = (S_OK, Some j)"
    and "read_Submit j = S_OK"
  shows "extract_frame_extract g (Some factory) can_open input_path frame_index
         = (case drain_extract g j frame_index of
              None \<Rightarrow> None
            | Some (callback, w) \<Rightarrow>
                if codec_FlushJobs cdc \<noteq> S_OK
                then fail_extract FlushJobs_failed
                       [Release Clip, Release Codec, Release Factory] callback w
                else resolve_extract can_open callback w)"
proof -
  have w: "log (Release ReadJob) (submit_read j (log (CreateJobReadFrame (scast frame_index))
              (log SetCallback (log OpenClip (logs [CreateFactory, CreateCodec]
                 (world_before_call g))))))
      = log (Release ReadJob) (submit_read j
          (logs (calls_before_submit (scast frame_index)) (world_before_call g)))"
    by (simp add: world_eq_iff submit_read_def calls_before_submit_def)
  show ?thesis
    using assms(3,4)
    by (simp add: extract_frame_extract_def assms(1,2,5,6,7) checked_def Let_def drain_extract_def
        w [unfolded world_before_call_def] world_before_call_def not_less [symmetric])
qed

lemma reach_extractor:
  assumes "factory_CreateCodec factory = (S_OK, Some cdc)"
    and "codec_OpenClip cdc input_path = (S_OK, Some c)"
    and "0 \<le> sint frame_index" "sint frame_index < sint (after_getter 0 (clip_GetFrameCount c))"
    and "codec_SetCallback cdc = S_OK"
    and "clip_CreateJobReadFrame c frame_index = (S_OK, Some j)"
    and "read_Submit j = S_OK"
  shows "extract_frame_extractor g (Some factory) can_open input_path frame_index
         = (case drain_extractor g can_open j frame_index of
              None \<Rightarrow> None
            | Some (g1, w) \<Rightarrow>
                if g_output_success g1
                then leave_extractor S_OK None
                       (Some \<lparr>fj_width = g_output_width g1, fj_height = g_output_height g1\<rparr>)
                       True True True g1 w
                else leave_extractor E_FAIL (Some Failed_to_write_output_file) None
                       True True True g1 w)"
proof -
  have w: "submit_read j (log (CreateJobReadFrame frame_index)
              (log SetCallback (log OpenClip (logs [CreateFactory, CreateCodec] world0))))
      = submit_read j (logs (calls_before_submit frame_index) world0)"
    by (simp add: world_eq_iff submit_read_def calls_before_submit_def)
  show ?thesis
    using assms(3,4)
    by (simp add: extract_frame_extractor_def assms(1,2,5,6,7) Let_def drain_extractor_def w
        not_less [symmetric] split: option.splits)
qed

lemma reach_addon:
  assumes "factory_CreateCodec factory = (S_OK, Some cdc)"
    and "codec_OpenClip cdc filePath = (S_OK, Some c)"
    and "0 \<le> sint frameIndex" "sint frameIndex < sint (after_getter 0 (clip_GetFrameCount c))"
    and "codec_SetCallback cdc = S_OK"
    and "clip_CreateJobReadFrame c frameIndex = (S_OK, Some j)"
    and "read_Submit j = S_OK"
  shows "ExtractFrame_addon (Some factory) filePath frameIndex
         = (case drain_addon j frameIndex of
              None \<Rightarrow> None
            | Some (callback, w) \<Rightarrow> resolve_addon callback w)"
proof -
  have w: "submit_read j (log (CreateJobReadFrame frameIndex)
              (log SetCallback (log OpenClip (logs [CreateFactory, CreateCodec] world0))))
      = submit_read j (logs (calls_before_submit frameIndex) world0)"
    by (simp add: world_eq_iff submit_read_def calls_before_submit_def)
  show ?thesis
    using assms(3,4)
    by (simp add: ExtractFrame_addon_def assms(1,2,5,6,7) Let_def drain_addon_def w
        not_less [symmetric])
qed

subsection \<open>A read that fails\<close>

text \<open>
  When the one read completion carries a failure status, the drain ends with the error flag
  set (where there is a flag), no image, and no decode job created or submitted.
\<close>

lemma drain_extract_read_fails:
  assumes "read_Submit j = S_OK" "read_completions j = [(status, fr)]" "status \<noteq> S_OK"
  shows "\<exists>w. drain_extract g j i = Some (\<lparr>processed_image = None, error_occurred = True\<rparr>, w)
           \<and> CreateJobDecodeAndProcessFrame \<notin> set (trace w) \<and> Submit DecodeJob \<notin> set (trace w)"
  by (simp add: drain_extract_def flush_jobs_def submit_read_def assms ReadComplete_extract_def
      new_BRAWCallback_def calls_before_submit_def log_def logs_def)

lemma drain_extractor_read_fails:
  assumes "read_Submit j = S_OK" "read_completions j = [(status, fr)]" "status \<noteq> S_OK"
  shows "\<exists>w. drain_extractor g can_open j i = Some (g\<lparr>g_output_success := False\<rparr>, w)
           \<and> CreateJobDecodeAndProcessFrame \<notin> set (trace w) \<and> Submit DecodeJob \<notin> set (trace w)"
  by (simp add: drain_extractor_def flush_jobs_def submit_read_def assms ReadComplete_extractor_def
      ReadComplete_chain_def calls_before_submit_def log_def logs_def ReadComplete_exit_def)

lemma drain_addon_read_fails:
  assumes "read_Submit j = S_OK" "read_completions j = [(status, fr)]" "status \<noteq> S_OK"
  shows "\<exists>w. drain_addon j i = Some (\<lparr>processed_image = None, error_occurred = True\<rparr>, w)
           \<and> CreateJobDecodeAndProcessFrame \<notin> set (trace w) \<and> Submit DecodeJob \<notin> set (trace w)"
  by (simp add: drain_addon_def flush_jobs_def submit_read_def assms ReadComplete_addon_def
      ReadComplete_chain_def new_BRAWCallback_def calls_before_submit_def log_def logs_def
      ReadComplete_exit_def)

lemma flush_fails_opens:
  "factory_CreateCodec (factory_flush_fails c)
     = (S_OK, Some ((codec_stub c)\<lparr>codec_FlushJobs := E_FAIL\<rparr>))"
  "codec_OpenClip ((codec_stub c)\<lparr>codec_FlushJobs := E_FAIL\<rparr>) path = (S_OK, Some c)"
  "codec_SetCallback ((codec_stub c)\<lparr>codec_FlushJobs := E_FAIL\<rparr>) = S_OK"
  "codec_FlushJobs ((codec_stub c)\<lparr>codec_FlushJobs := E_FAIL\<rparr>) = E_FAIL"
  by (simp_all add: factory_flush_fails_def codec_stub_def)

text \<open>
  Claim C6, as amended. When the read completion reports a failure status, no decode job is
  created or submitted, and the operation fails with the error it reports for any failure
  seen through the sink: \<^verbatim>\<open>"Processing error occurred"\<close> (stage \<open>ProcessFailed\<close>) in
  braw-extract.cpp and braw_addon.cpp, which have one error flag for the read and the
  process callbacks, and \<^verbatim>\<open>"Failed to write output file"\<close> in braw-extractor.cpp, which only
  knows that no file was written. braw-extract.cpp looks at the status of \<^verbatim>\<open>FlushJobs\<close>
  before it looks at the sink, and fails with \<^verbatim>\<open>"FlushJobs failed"\<close>, which has no stage,
  when that status is a failure; the other two programs drop that status. No program
  resolves with a stage of its own for the read. The first conjunct is for braw-extract.cpp,
  whose index is an \<open>int\<close>, the second for braw-extractor.cpp and braw_addon.cpp, whose index
  is a \<open>long\<close>.
\<close>

theorem read_failure_resolves_as_processing_error:
  fixes frame_index :: "32 word" and long_index :: "64 word"
  assumes "factory_CreateCodec factory = (S_OK, Some cdc)"
    and "codec_OpenClip cdc path = (S_OK, Some c)"
    and "codec_SetCallback cdc = S_OK"
    and "read_Submit j = S_OK"
    and "read_completions j = [(status, fr)]" "status \<noteq> S_OK"
  shows "(0 \<le> sint frame_index
          \<and> sint frame_index < sint (ucast (after_getter 0 (clip_GetFrameCount c)) :: 32 word)
          \<and> clip_CreateJobReadFrame c (scast frame_index) = (S_OK, Some j) \<longrightarrow>
            (\<exists>cb w. extract_frame_extract g_callback (Some factory) can_open path frame_index
               = Some ((cli_failure (if codec_FlushJobs cdc = S_OK then Processing_error_occurred
                                     else FlushJobs_failed), None), cb, w)
             \<and> CreateJobDecodeAndProcessFrame \<notin> set (trace w) \<and> Submit DecodeJob \<notin> set (trace w)))
       \<and> (0 \<le> sint long_index
          \<and> sint long_index < sint (after_getter 0 (clip_GetFrameCount c))
          \<and> clip_CreateJobReadFrame c long_index = (S_OK, Some j) \<longrightarrow>
            (\<exists>g' w. extract_frame_extractor g (Some factory) can_open path long_index
               = Some ((cli_failure Failed_to_write_output_file, g'), w)
             \<and> CreateJobDecodeAndProcessFrame \<notin> set (trace w) \<and> Submit DecodeJob \<notin> set (trace w))
          \<and> (\<exists>w. ExtractFrame_addon (Some factory) path long_index
               = Some (Napi_failure Processing_error_occurred, w)
             \<and> CreateJobDecodeAndProcessFrame \<notin> set (trace w) \<and> Submit DecodeJob \<notin> set (trace w)))
       \<and> stage_of Processing_error_occurred = Some ProcessFailed
       \<and> stage_of FlushJobs_failed = None
       \<and> stage_of Failed_to_write_output_file = None"
proof (intro conjI impI)
  assume "0 \<le> sint frame_index
      \<and> sint frame_index < sint (ucast (after_getter 0 (clip_GetFrameCount c)) :: 32 word)
      \<and> clip_CreateJobReadFrame c (scast frame_index) = (S_OK, Some j)"
  then have index: "0 \<le> sint frame_index"
      "sint frame_index < sint (ucast (after_getter 0 (clip_GetFrameCount c)) :: 32 word)"
    and job: "clip_CreateJobReadFrame c (scast frame_index) = (S_OK, Some j)"
    by simp_all
  from drain_extract_read_fails [OF assms(4,5,6)] obtain w where
    d: "drain_extract g_callback j frame_index
          = Some (\<lparr>processed_image = None, error_occurred = True\<rparr>, w)" and
    t: "CreateJobDecodeAndProcessFrame \<notin> set (trace w)" "Submit DecodeJob \<notin> set (trace w)"
    by blast
  show "\<exists>cb w. extract_frame_extract g_callback (Some factory) can_open path frame_index
            = Some ((cli_failure (if codec_FlushJobs cdc = S_OK then Processing_error_occurred
                                  else FlushJobs_failed), None), cb, w)
          \<and> CreateJobDecodeAndProcessFrame \<notin> set (trace w) \<and> Submit DecodeJob \<notin> set (trace w)"
    using t
    by (simp add: reach_extract [OF assms(1,2) index assms(3) job assms(4)] d resolve_extract_def
        fail_extract_def)
next
  assume "0 \<le> sint long_index
      \<and> sint long_index < sint (after_getter 0 (clip_GetFrameCount c))
      \<and> clip_CreateJobReadFrame c long_index = (S_OK, Some j)"
  then have index: "0 \<le> sint long_index"
      "sint long_index < sint (after_getter 0 (clip_GetFrameCount c))"
    and job: "clip_CreateJobReadFrame c long_index = (S_OK, Some j)"
    by simp_all
  from drain_extractor_read_fails [OF assms(4,5,6)] obtain w where
    d: "drain_extractor g can_open j long_index = Some (g\<lparr>g_output_success := False\<rparr>, w)" and
    t: "CreateJobDecodeAndProcessFrame \<notin> set (trace w)" "Submit DecodeJob \<notin> set (trace w)"
    by blast
  show "\<exists>g' w. extract_frame_extractor g (Some factory) can_open path long_index
            = Some ((cli_failure Failed_to_write_output_file, g'), w)
          \<and> CreateJobDecodeAndProcessFrame \<notin> set (trace w) \<and> Submit DecodeJob \<notin> set (trace w)"
    using t
    by (simp add: reach_extractor [OF assms(1,2) index assms(3) job assms(4)] d leave_extractor_def
        cli_failure_def exit_status_def release_all_def)
next
  assume "0 \<le> sint long_index
      \<and> sint long_index < sint (after_getter 0 (clip_GetFrameCount c))
      \<and> clip_CreateJobReadFrame c long_index = (S_OK, Some j)"
  then have index: "0 \<le> sint long_index"
      "sint long_index < sint (after_getter 0 (clip_GetFrameCount c))"
    and job: "clip_CreateJobReadFrame c long_index = (S_OK, Some j)"
    by simp_all
  from drain_addon_read_fails [OF assms(4,5,6)] obtain w where
    d: "drain_addon j long_index = Some (\<lparr>processed_image = None, error_occurred = True\<rparr>, w)" and
    t: "CreateJobDecodeAndProcessFrame \<notin> set (trace w)" "Submit DecodeJob \<notin> set (trace w)"
    by blast
  show "\<exists>w. ExtractFrame_addon (Some factory) path long_index
            = Some (Napi_failure Processing_error_occurred, w)
          \<and> CreateJobDecodeAndProcessFrame \<notin> set (trace w) \<and> Submit DecodeJob \<notin> set (trace w)"
    using t
    by (simp add: reach_addon [OF assms(1,2) index assms(3) job assms(4)] d resolve_addon_def
        leave_addon_def release_all_def delete_BRAWCallback_def)
qed simp_all

theorem read_failure_witness:
  "factory_CreateCodec (factory_stub (clip_with read_job_read_fails))
     = (S_OK, Some (codec_stub (clip_with read_job_read_fails)))
   \<and> codec_OpenClip (codec_stub (clip_with read_job_read_fails)) ''clip.braw''
     = (S_OK, Some (clip_with read_job_read_fails))
   \<and> codec_SetCallback (codec_stub (clip_with read_job_read_fails)) = S_OK
   \<and> read_Submit read_job_read_fails = S_OK
   \<and> read_completions read_job_read_fails = [(E_FAIL, None)]
   \<and> E_FAIL \<noteq> S_OK
   \<and> 0 \<le> sint (5 :: 32 word)
   \<and> sint (5 :: 32 word)
       < sint (ucast (after_getter 0 (clip_GetFrameCount (clip_with read_job_read_fails))) :: 32 word)
   \<and> clip_CreateJobReadFrame (clip_with read_job_read_fails) (scast (5 :: 32 word))
       = (S_OK, Some read_job_read_fails)
   \<and> 0 \<le> sint (5 :: 64 word)
   \<and> sint (5 :: 64 word) < sint (after_getter 0 (clip_GetFrameCount (clip_with read_job_read_fails)))
   \<and> clip_CreateJobReadFrame (clip_with read_job_read_fails) 5 = (S_OK, Some read_job_read_fails)
   \<and> codec_FlushJobs (codec_stub (clip_with read_job_read_fails)) = S_OK
   \<and> (\<exists>cb w. extract_frame_extract None (Some (factory_stub (clip_with read_job_read_fails)))
            True ''clip.braw'' 5
          = Some ((cli_failure Processing_error_occurred, None), cb, w)
        \<and> CreateJobDecodeAndProcessFrame \<notin> set (trace w) \<and> Submit DecodeJob \<notin> set (trace w))
   \<and> (\<exists>g' w. extract_frame_extractor globals0 (Some (factory_stub (clip_with read_job_read_fails)))
            True ''clip.braw'' 5
          = Some ((cli_failure Failed_to_write_output_file, g'), w)
        \<and> CreateJobDecodeAndProcessFrame \<notin> set (trace w) \<and> Submit DecodeJob \<notin> set (trace w))
   \<and> (\<exists>w. ExtractFrame_addon (Some (factory_stub (clip_with read_job_read_fails))) ''clip.braw'' 5
          = Some (Napi_failure Processing_error_occurred, w)
        \<and> CreateJobDecodeAndProcessFrame \<notin> set (trace w) \<and> Submit DecodeJob \<notin> set (trace w))
   \<and> codec_FlushJobs ((codec_stub (clip_with read_job_read_fails))\<lparr>codec_FlushJobs := E_FAIL\<rparr>)
       \<noteq> S_OK
   \<and> (\<exists>cb w. extract_frame_extract None (Some (factory_flush_fails (clip_with read_job_read_fails)))
            True ''clip.braw'' 5
          = Some ((cli_failure FlushJobs_failed, None), cb, w)
        \<and> CreateJobDecodeAndProcessFrame \<notin> set (trace w) \<and> Submit DecodeJob \<notin> set (trace w))"
proof -
  have int_index: "0 \<le> sint (5 :: 32 word)
      \<and> sint (5 :: 32 word)
          < sint (ucast (after_getter 0 (clip_GetFrameCount (clip_with read_job_read_fails))) :: 32 word)
      \<and> clip_CreateJobReadFrame (clip_with read_job_read_fails) (scast (5 :: 32 word))
          = (S_OK, Some read_job_read_fails)"
    by (simp add: stub_opens)
  have long_index: "0 \<le> sint (5 :: 64 word)
      \<and> sint (5 :: 64 word) < sint (after_getter 0 (clip_GetFrameCount (clip_with read_job_read_fails)))
      \<and> clip_CreateJobReadFrame (clip_with read_job_read_fails) 5 = (S_OK, Some read_job_read_fails)"
    by (simp add: stub_opens)
  have job: "read_Submit read_job_read_fails = S_OK"
    "read_completions read_job_read_fails = [(E_FAIL, None)]"
    by (simp_all add: read_job_read_fails_def)
  have failure: "E_FAIL \<noteq> S_OK"
    by simp
  note run = read_failure_resolves_as_processing_error
    [where frame_index = 5 and long_index = 5 and g_callback = None and can_open = True
       and path = "''clip.braw''" and g = globals0,
     OF stub_opens(1,2,3) job failure]
  note flush_run = read_failure_resolves_as_processing_error
    [where frame_index = 5 and long_index = 5 and g_callback = None and can_open = True
       and path = "''clip.braw''" and g = globals0,
     OF flush_fails_opens(1,2,3) job failure]
  from run int_index have cli: "\<exists>cb w.
      extract_frame_extract None (Some (factory_stub (clip_with read_job_read_fails)))
          True ''clip.braw'' 5
        = Some ((cli_failure Processing_error_occurred, None), cb, w)
      \<and> CreateJobDecodeAndProcessFrame \<notin> set (trace w) \<and> Submit DecodeJob \<notin> set (trace w)"
    by (simp add: stub_opens(4))
  from flush_run int_index have flushed: "\<exists>cb w.
      extract_frame_extract None (Some (factory_flush_fails (clip_with read_job_read_fails)))
          True ''clip.braw'' 5
        = Some ((cli_failure FlushJobs_failed, None), cb, w)
      \<and> CreateJobDecodeAndProcessFrame \<notin> set (trace w) \<and> Submit DecodeJob \<notin> set (trace w)"
    by (simp add: flush_fails_opens(4))
  from run long_index have others:
    "\<exists>g' w. extract_frame_extractor globals0 (Some (factory_stub (clip_with read_job_read_fails)))
          True ''clip.braw'' 5
        = Some ((cli_failure Failed_to_write_output_file, g'), w)
      \<and> CreateJobDecodeAndProcessFrame \<notin> set (trace w) \<and> Submit DecodeJob \<notin> set (trace w)"
    "\<exists>w. ExtractFrame_addon (Some (factory_stub (clip_with read_job_read_fails))) ''clip.braw'' 5
        = Some (Napi_failure Processing_error_occurred, w)
      \<and> CreateJobDecodeAndProcessFrame \<notin> set (trace w) \<and> Submit DecodeJob \<notin> set (trace w)"
    by blast+
  from cli flushed others int_index long_index job failure stub_opens(1-4) flush_fails_opens(4)
  show ?thesis
    by simp
qed

text \<open>
  Claim C6 as stated (a read failure resolves with the distinct stage \<open>ReadFailed\<close>, not a
  generic processing error) fails on braw-extract.cpp: a read that fails and a processing
  that fails resolve with the same error, \<^verbatim>\<open>"Processing error occurred"\<close>, whose stage is
  \<open>ProcessFailed\<close>; and a read that fails resolves \<^verbatim>\<open>"FlushJobs failed"\<close>, which has no
  stage, when \<^verbatim>\<open>FlushJobs\<close> then returns a failure status.
\<close>

theorem read_failure_is_not_distinct:
  "map_option (cerr_error \<circ> fst \<circ> fst)
      (extract_frame_extract None (Some (factory_stub (clip_with read_job_read_fails))) True
         ''clip.braw'' 5)
     = Some (Some Processing_error_occurred)
   \<and> map_option (cerr_error \<circ> fst \<circ> fst)
      (extract_frame_extract None (Some (factory_stub (clip_with read_job_process_fails))) True
         ''clip.braw'' 5)
     = Some (Some Processing_error_occurred)
   \<and> stage_of Processing_error_occurred = Some ProcessFailed
   \<and> stage_of Processing_error_occurred \<noteq> Some ReadFailed
   \<and> map_option (cerr_error \<circ> fst \<circ> fst)
      (extract_frame_extract None (Some (factory_flush_fails (clip_with read_job_read_fails))) True
         ''clip.braw'' 5)
     = Some (Some FlushJobs_failed)
   \<and> stage_of FlushJobs_failed = None"
proof -
  have in_range: "0 \<le> sint (5 :: 32 word)"
    "\<And>j. sint (5 :: 32 word)
      < sint (ucast (after_getter 0 (clip_GetFrameCount (clip_with j))) :: 32 word)"
    by (simp_all add: stub_opens)
  have submit: "read_Submit read_job_read_fails = S_OK" "read_Submit read_job_process_fails = S_OK"
    by (simp_all add: read_job_read_fails_def read_job_process_fails_def)
  have drain: "drain_extract None read_job_read_fails 5
      = Some (\<lparr>processed_image = None, error_occurred = True\<rparr>,
              \<lparr>trace = calls_before_submit 5
                 @ [Submit ReadJob, Release ReadJob, FlushJobs,
                    Cerr (ReadComplete_failed_with_result E_FAIL), Release ReadJob],
               read_queue = [], process_queue = []\<rparr>)"
    by (simp add: drain_extract_def flush_jobs_def submit_read_def read_job_read_fails_def
        ReadComplete_extract_def new_BRAWCallback_def world_before_call_def world0_def
        log_def logs_def)
  then have first: "map_option (cerr_error \<circ> fst \<circ> fst)
      (extract_frame_extract None (Some (factory_stub (clip_with read_job_read_fails))) True
         ''clip.braw'' 5)
     = Some (Some Processing_error_occurred)"
    by (simp add: reach_extract [OF stub_opens(1,2) in_range stub_opens(3,5) submit(1)]
        stub_opens(4) resolve_extract_def fail_extract_def cli_failure_def)
  from drain have third: "map_option (cerr_error \<circ> fst \<circ> fst)
      (extract_frame_extract None (Some (factory_flush_fails (clip_with read_job_read_fails))) True
         ''clip.braw'' 5)
     = Some (Some FlushJobs_failed)"
    by (simp add: reach_extract [OF flush_fails_opens(1,2) in_range flush_fails_opens(3)
          stub_opens(5) submit(1)]
        flush_fails_opens(4) fail_extract_def cli_failure_def)
  have "drain_extract None read_job_process_fails 5
      = Some (\<lparr>processed_image = None, error_occurred = True\<rparr>,
              \<lparr>trace = calls_before_submit 5
                 @ [Submit ReadJob, Release ReadJob, FlushJobs, SetResourceFormat,
                    CreateJobDecodeAndProcessFrame, Submit DecodeJob, Release DecodeJob,
                    Release ReadJob, Cerr (ProcessComplete_failed_with_result E_FAIL),
                    Release DecodeJob],
               read_queue = [], process_queue = []\<rparr>)"
    by (simp add: drain_extract_def flush_jobs_def submit_read_def read_job_process_fails_def
        ReadComplete_extract_def ProcessComplete_extract_def BRAWCallback_ProcessComplete_def
        submit_decode_def new_BRAWCallback_def world_before_call_def world0_def
        log_def logs_def Let_def)
  then have second: "map_option (cerr_error \<circ> fst \<circ> fst)
      (extract_frame_extract None (Some (factory_stub (clip_with read_job_process_fails))) True
         ''clip.braw'' 5)
     = Some (Some Processing_error_occurred)"
    by (simp add: reach_extract [OF stub_opens(1,2) in_range stub_opens(3,5) submit(2)]
        stub_opens(4) resolve_extract_def fail_extract_def cli_failure_def)
  from first second third show ?thesis
    by simp
qed

subsection \<open>After the drain\<close>


text \<open>
  The size of the addon's copy is \<open>width * height * 4\<close> in \<open>unsigned int\<close>. For an image
  of fewer than \<open>2 ^ 30\<close> pixels that is the product in the natural numbers: the copy holds
  every byte of the image.
\<close>

lemma buffer_size_no_wrap:
  fixes width height :: "32 word"
  assumes "unat width * unat height < 2 ^ 30"
  shows "unat (width * height * 4) = unat width * unat height * 4"
proof -
  from assms have prod: "unat (width * height) = unat width * unat height"
    by (simp add: unat_mult_lem [THEN iffD1])
  with assms have "unat (width * height) < 2 ^ 30"
    by simp
  then have "unat (width * height * 4) = 4 * unat (width * height)"
    by (rule offset_red)
  with prod show ?thesis
    by simp
qed




lemma white_image_simps:
  "snd (image_GetResourceType (white_image i)) = Some blackmagicRawResourceTypeBufferCPU"
  "image_GetResource (white_image i) = (S_OK, Some (\<lambda>k. 255))"
  "after_getter 0 (image_GetWidth (white_image i)) = 2"
  "after_getter 0 (image_GetHeight (white_image i)) = 1"
  by (simp_all add: white_image_def after_getter_def)






subsection \<open>The sink and the processed image\<close>

text \<open>
  One \<^verbatim>\<open>ProcessComplete\<close> call: a reference is taken on each delivered image, the image
  held before is released, and the sink holds the delivered image afterwards.
\<close>

lemma ProcessComplete_counts:
  assumes "fst c \<noteq> S_OK \<or> snd c \<noteq> None"
  shows "\<exists>cb' w'. BRAWCallback_ProcessComplete v cb w c = Some (cb', w')
     \<and> (\<forall>i. count_list (trace w') (AddRef (Image i))
            = count_list (trace w) (AddRef (Image i)) + count_list (delivered [c]) i)
     \<and> (\<forall>i. count_list (trace w') (Release (Image i)) + owed cb' i
            = count_list (trace w) (Release (Image i)) + owed cb i + count_list (delivered [c]) i)
     \<and> held_id cb' = (if delivered [c] = [] then held_id cb else Some (last (delivered [c])))"
  using assms
  by (cases c)
    (auto simp: BRAWCallback_ProcessComplete_def Let_def owed_def held_id_def split: option.splits)

lemma delivered_Cons: "delivered (c # cs) = delivered [c] @ delivered cs"
  by (cases c) (auto split: option.splits)

lemma run_ProcessComplete_counts:
  assumes "process_calls_defined calls"
  shows "\<exists>cb' w'. run_callbacks (BRAWCallback_ProcessComplete v) calls cb w = Some (cb', w')
     \<and> (\<forall>i. count_list (trace w') (AddRef (Image i))
            = count_list (trace w) (AddRef (Image i)) + count_list (delivered calls) i)
     \<and> (\<forall>i. count_list (trace w') (Release (Image i)) + owed cb' i
            = count_list (trace w) (Release (Image i)) + owed cb i + count_list (delivered calls) i)
     \<and> held_id cb' = (if delivered calls = [] then held_id cb else Some (last (delivered calls)))"
  using assms
proof (induction calls arbitrary: cb w)
  case Nil
  then show ?case by simp
next
  case (Cons c cs)
  from Cons.prems have c: "fst c \<noteq> S_OK \<or> snd c \<noteq> None" and cs: "process_calls_defined cs"
    by (simp_all add: process_calls_defined_def)
  from ProcessComplete_counts [OF c, of v cb w] obtain cb1 w1 where
    step: "BRAWCallback_ProcessComplete v cb w c = Some (cb1, w1)" and
    a1: "\<And>i. count_list (trace w1) (AddRef (Image i))
            = count_list (trace w) (AddRef (Image i)) + count_list (delivered [c]) i" and
    r1: "\<And>i. count_list (trace w1) (Release (Image i)) + owed cb1 i
            = count_list (trace w) (Release (Image i)) + owed cb i + count_list (delivered [c]) i" and
    h1: "held_id cb1 = (if delivered [c] = [] then held_id cb else Some (last (delivered [c])))"
    by blast
  from Cons.IH [OF cs, of cb1 w1] obtain cb2 w2 where
    rest: "run_callbacks (BRAWCallback_ProcessComplete v) cs cb1 w1 = Some (cb2, w2)" and
    a2: "\<And>i. count_list (trace w2) (AddRef (Image i))
            = count_list (trace w1) (AddRef (Image i)) + count_list (delivered cs) i" and
    r2: "\<And>i. count_list (trace w2) (Release (Image i)) + owed cb2 i
            = count_list (trace w1) (Release (Image i)) + owed cb1 i + count_list (delivered cs) i" and
    h2: "held_id cb2 = (if delivered cs = [] then held_id cb1 else Some (last (delivered cs)))"
    by blast
  have run: "run_callbacks (BRAWCallback_ProcessComplete v) (c # cs) cb w = Some (cb2, w2)"
    by (simp add: step rest)
  have d: "delivered (c # cs) = delivered [c] @ delivered cs"
    by (rule delivered_Cons)
  have "\<forall>i. count_list (trace w2) (AddRef (Image i))
      = count_list (trace w) (AddRef (Image i)) + count_list (delivered (c # cs)) i"
    by (simp add: a1 a2 d)
  moreover have "\<forall>i. count_list (trace w2) (Release (Image i)) + owed cb2 i
      = count_list (trace w) (Release (Image i)) + owed cb i + count_list (delivered (c # cs)) i"
  proof
    fix i
    have "count_list (trace w2) (Release (Image i)) + owed cb2 i + owed cb1 i
        = count_list (trace w1) (Release (Image i)) + owed cb1 i + count_list (delivered cs) i
            + owed cb1 i"
      using r2 [of i] by simp
    also have "\<dots> = count_list (trace w) (Release (Image i)) + owed cb i
        + count_list (delivered [c]) i + count_list (delivered cs) i + owed cb1 i"
      using r1 [of i] by simp
    finally show "count_list (trace w2) (Release (Image i)) + owed cb2 i
        = count_list (trace w) (Release (Image i)) + owed cb i + count_list (delivered (c # cs)) i"
      by (simp add: d)
  qed
  moreover have
    "held_id cb2 = (if delivered (c # cs) = [] then held_id cb else Some (last (delivered (c # cs))))"
    by (simp add: h1 h2 d)
  ultimately show ?case
    using run by blast
qed

lemma delete_counts:
  "count_list (trace (delete_BRAWCallback cb w)) (Release (Image i))
     = count_list (trace w) (Release (Image i)) + owed cb i"
  "count_list (trace (delete_BRAWCallback cb w)) (AddRef (Image i))
     = count_list (trace w) (AddRef (Image i))"
  by (auto simp: delete_BRAWCallback_def owed_def held_id_def split: option.splits)

text \<open>The life of a sink: what it releases is what it was handed.\<close>

lemma sink_lifetime_counts:
  assumes "process_calls_defined calls"
  shows "\<exists>cb w1. run_callbacks (BRAWCallback_ProcessComplete verbose) calls new_BRAWCallback world0
          = Some (cb, w1)
      \<and> held_id cb = (if delivered calls = [] then None else Some (last (delivered calls)))
      \<and> sink_lifetime verbose calls world0 = Some (delete_BRAWCallback cb w1)
      \<and> (\<forall>i. count_list (trace (delete_BRAWCallback cb w1)) (AddRef (Image i))
                = count_list (delivered calls) i
            \<and> count_list (trace (delete_BRAWCallback cb w1)) (Release (Image i))
                = count_list (delivered calls) i)"
proof -
  from run_ProcessComplete_counts [OF assms, of verbose new_BRAWCallback world0]
  obtain cb w1 where
    run: "run_callbacks (BRAWCallback_ProcessComplete verbose) calls new_BRAWCallback world0
          = Some (cb, w1)" and
    a: "\<And>i. count_list (trace w1) (AddRef (Image i))
          = count_list (trace world0) (AddRef (Image i)) + count_list (delivered calls) i" and
    r: "\<And>i. count_list (trace w1) (Release (Image i)) + owed cb i
          = count_list (trace world0) (Release (Image i)) + owed new_BRAWCallback i
              + count_list (delivered calls) i" and
    h: "held_id cb
          = (if delivered calls = [] then held_id new_BRAWCallback else Some (last (delivered calls)))"
    by blast
  have start: "trace world0 = []" "\<And>i. owed new_BRAWCallback i = 0" "held_id new_BRAWCallback = None"
    by (simp_all add: world0_def owed_def held_id_def new_BRAWCallback_def)
  show ?thesis
    using run a r h by (simp add: start sink_lifetime_def delete_counts)
qed

text \<open>Each callback keeps the balance of image references.\<close>

lemma ReadComplete_addon_balance:
  assumes "ReadComplete_addon cb w c = Some (cb', w')" "image_balance d cb w"
  shows "image_balance d cb' w'"
  using assms
  by (cases c)
    (auto simp: ReadComplete_addon_def ReadComplete_chain_def ReadComplete_exit_def Let_def
      image_balance_def owed_def held_id_def split: option.splits if_splits prod.splits)

lemma ReadComplete_extract_balance:
  assumes "ReadComplete_extract cb w c = Some (cb', w')" "image_balance d cb w"
  shows "image_balance d cb' w'"
  using assms
  by (cases c)
    (auto simp: ReadComplete_extract_def Let_def
      image_balance_def owed_def held_id_def split: option.splits if_splits prod.splits)

lemma ProcessComplete_balance:
  assumes "BRAWCallback_ProcessComplete v cb w c = Some (cb', w')" "image_balance d cb w"
  shows "image_balance d cb' w'"
  using assms
  by (cases c)
    (auto simp: BRAWCallback_ProcessComplete_def Let_def
      image_balance_def owed_def held_id_def split: option.splits if_splits)

text \<open>What every callback keeps, a run of callbacks keeps.\<close>

lemma run_callbacks_invariant:
  assumes "\<And>s w c s' w'. f s w c = Some (s', w') \<Longrightarrow> P s w \<Longrightarrow> P s' w'"
    and "run_callbacks f cs s w = Some (s', w')" and "P s w"
  shows "P s' w'"
  using assms(2,3)
proof (induction cs arbitrary: s w)
  case Nil
  then show ?case by simp
next
  case (Cons c cs)
  from Cons.prems(1) obtain s1 w1 where
    step: "f s w c = Some (s1, w1)" and rest: "run_callbacks f cs s1 w1 = Some (s', w')"
    by (auto split: option.splits)
  from assms(1) [OF step Cons.prems(2)] have "P s1 w1" .
  with Cons.IH rest show ?case by blast
qed

lemma image_balance_queue [simp]:
  "image_balance d cb (w\<lparr>read_queue := q\<rparr>) = image_balance d cb w"
  "image_balance d cb (w\<lparr>process_queue := q'\<rparr>) = image_balance d cb w"
  by (simp_all add: image_balance_def)

lemma flush_addon_balance:
  assumes "flush_jobs ReadComplete_addon ProcessComplete_addon cb w = Some (cb', w')"
    and "image_balance d cb (log FlushJobs w)"
  shows "image_balance d cb' w'"
proof -
  from assms(1) obtain cb1 w1 where
    reads: "run_callbacks ReadComplete_addon (read_queue w) cb
              ((log FlushJobs w)\<lparr>read_queue := []\<rparr>) = Some (cb1, w1)" and
    procs: "run_callbacks ProcessComplete_addon (process_queue w1) cb1
              (w1\<lparr>process_queue := []\<rparr>) = Some (cb', w')"
    by (auto simp: flush_jobs_def split: option.splits)
  have "image_balance d cb1 w1"
    by (rule run_callbacks_invariant [where P = "image_balance d", OF _ reads])
      (auto intro: ReadComplete_addon_balance simp: assms(2))
  then show ?thesis
    by (intro run_callbacks_invariant [where P = "image_balance d", OF _ procs])
      (auto intro: ProcessComplete_balance simp: ProcessComplete_addon_def)
qed

lemma flush_extract_balance:
  assumes "flush_jobs ReadComplete_extract ProcessComplete_extract cb w = Some (cb', w')"
    and "image_balance d cb (log FlushJobs w)"
  shows "image_balance d cb' w'"
proof -
  from assms(1) obtain cb1 w1 where
    reads: "run_callbacks ReadComplete_extract (read_queue w) cb
              ((log FlushJobs w)\<lparr>read_queue := []\<rparr>) = Some (cb1, w1)" and
    procs: "run_callbacks ProcessComplete_extract (process_queue w1) cb1
              (w1\<lparr>process_queue := []\<rparr>) = Some (cb', w')"
    by (auto simp: flush_jobs_def split: option.splits)
  have "image_balance d cb1 w1"
    by (rule run_callbacks_invariant [where P = "image_balance d", OF _ reads])
      (auto intro: ReadComplete_extract_balance simp: assms(2))
  then show ?thesis
    by (intro run_callbacks_invariant [where P = "image_balance d", OF _ procs])
      (auto intro: ProcessComplete_balance simp: ProcessComplete_extract_def)
qed

lemma balance_log:
  "(\<And>i. e \<noteq> AddRef (Image i) \<and> e \<noteq> Release (Image i)) \<Longrightarrow>
   image_balance d cb (log e w) = image_balance d cb w"
  by (simp add: image_balance_def)

lemma balance_logs:
  "\<forall>e \<in> set es. \<forall>i. e \<noteq> AddRef (Image i) \<and> e \<noteq> Release (Image i) \<Longrightarrow>
   image_balance d cb (logs es w) = image_balance d cb w"
  by (induction es arbitrary: w) (auto simp: image_balance_def)

lemma balance_submit_read [simp]: "image_balance d cb (submit_read j w) = image_balance d cb w"
  by (simp add: image_balance_def)

lemma balance_start [simp]: "image_balance (\<lambda>i. 0) new_BRAWCallback world0"
  by (simp add: image_balance_def owed_def held_id_def new_BRAWCallback_def world0_def)

text \<open>Deleting the sink of the call before pays the release that sink owed.\<close>

lemma balance_before_call [simp]:
  "image_balance (owed_before g_callback) new_BRAWCallback (world_before_call g_callback)"
  by (cases g_callback)
    (auto simp: image_balance_def owed_before_def world_before_call_def delete_counts
      owed_def held_id_def new_BRAWCallback_def world0_def)

lemma leave_addon_balanced:
  assumes "leave_addon r clip codec factory cb w = Some (r', w')" "image_balance (\<lambda>i. 0) cb w"
  shows "count_list (trace w') (Release (Image i)) = count_list (trace w') (AddRef (Image i))"
  using assms
  by (auto simp: leave_addon_def image_balance_def delete_counts release_all_def)

lemma resolve_addon_balanced:
  assumes "resolve_addon cb w = Some (r, w')" "image_balance (\<lambda>i. 0) cb w"
  shows "count_list (trace w') (Release (Image i)) = count_list (trace w') (AddRef (Image i))"
  using assms
  by (auto simp: resolve_addon_def Let_def split: if_splits option.splits
      intro: leave_addon_balanced)

text \<open>
  A call of \<^verbatim>\<open>ExtractFrame\<close> that returns has released every image as often as it took a
  reference on it: its sink is a local variable, destroyed when the call returns.
\<close>

lemma addon_session_balanced:
  assumes "ExtractFrame_addon sdk path i = Some (r, w)"
  shows "count_list (trace w) (Release (Image k)) = count_list (trace w) (AddRef (Image k))"
  using assms
  by (auto simp: ExtractFrame_addon_def Let_def balance_log balance_logs
      split: option.splits prod.splits if_splits
      dest!: flush_addon_balance [where d = "\<lambda>i. 0"]
      intro: leave_addon_balanced resolve_addon_balanced)

lemma resolve_extract_balance:
  assumes "resolve_extract can_open cb w = Some (r, cb', w')" "image_balance d cb w"
  shows "image_balance d cb' w'"
  using assms
  by (auto simp: resolve_extract_def fail_extract_def Let_def image_balance_def
      split: if_splits option.splits)

text \<open>
  A call of \<^verbatim>\<open>extract_frame\<close> of braw-extract.cpp first releases what the sink of the call
  before it held, and returns with its own sink alive: the image that sink holds is still
  owed its release.
\<close>

lemma extract_session_balance:
  assumes "extract_frame_extract g_callback sdk can_open path i = Some (r, cb, w)"
  shows "image_balance (owed_before g_callback) cb w"
proof -
  have start: "image_balance (owed_before g_callback) new_BRAWCallback
      (case g_callback of None \<Rightarrow> world0 | Some old \<Rightarrow> delete_BRAWCallback old world0)"
    using balance_before_call [of g_callback] by (simp add: world_before_call_def)
  show ?thesis
    using assms start
    by (auto simp: extract_frame_extract_def fail_extract_def Let_def balance_log balance_logs
        split: option.splits prod.splits if_splits
        dest!: flush_extract_balance [where d = "owed_before g_callback"]
        intro: resolve_extract_balance)
qed

text \<open>Two whole runs on the stubs: a frame of two white pixels is decoded.\<close>

lemma extract_run_ok:
  "extract_frame_extract None (Some (factory_stub (clip_with read_job_ok))) True ''clip.braw'' 5
     = Some ((\<lparr>return_value = 0, cerr_error = None,
               cout_success = Some \<lparr>fj_width = 2, fj_height = 1\<rparr>\<rparr>,
              Some (ppm_expected 2 1 (\<lambda>k. 255))),
             \<lparr>processed_image = Some (white_image 7), error_occurred = False\<rparr>,
             \<lparr>trace =
                [CreateFactory, CreateCodec, OpenClip, SetCallback, CreateJobReadFrame 5,
                 Submit ReadJob, Release ReadJob, FlushJobs, SetResourceFormat,
                 CreateJobDecodeAndProcessFrame, Submit DecodeJob, Release DecodeJob,
                 Release ReadJob, AddRef (Image 7), Release DecodeJob,
                 Release Clip, Release Codec, Release Factory],
              read_queue = [], process_queue = []\<rparr>)"
proof -
  have id: "image_id (white_image 7) = 7"
    by (simp add: white_image_def)
  show ?thesis
    by (simp add: reach_extract [OF stub_opens(1,2) _ _ stub_opens(3,5)] stub_opens read_job_ok_def
        drain_extract_def flush_jobs_def submit_read_def frame_ok_def decode_job_ok_def
        ReadComplete_extract_def ProcessComplete_extract_def BRAWCallback_ProcessComplete_def
        submit_decode_def new_BRAWCallback_def world_before_call_def world0_def
        calls_before_submit_def log_def logs_def Let_def resolve_extract_def white_image_simps
        checked_def write_ppm_no_wrap id)
qed

lemma addon_run_ok:
  "ExtractFrame_addon (Some (factory_stub (clip_with read_job_ok))) ''clip.braw'' 5
     = Some (Napi_success \<lparr>dec_width = 2, dec_height = 1, dec_buffer = map (\<lambda>k. 255) [0..<8]\<rparr>,
             \<lparr>trace =
                [CreateFactory, CreateCodec, OpenClip, SetCallback, CreateJobReadFrame 5,
                 Submit ReadJob, FlushJobs, SetResourceFormat, CreateJobDecodeAndProcessFrame,
                 Submit DecodeJob, Release ReadJob, AddRef (Image 7), Release DecodeJob,
                 Release Clip, Release Codec, Release Factory, Release (Image 7)],
              read_queue = [], process_queue = []\<rparr>)"
proof -
  have id: "image_id (white_image 7) = 7"
    by (simp add: white_image_def)
  show ?thesis
    by (simp add: reach_addon [OF stub_opens(1,2) _ _ stub_opens(3,5)] stub_opens read_job_ok_def
        drain_addon_def flush_jobs_def submit_read_def frame_ok_def decode_job_ok_def
        ReadComplete_addon_def ReadComplete_chain_def ReadComplete_exit_def
        ProcessComplete_addon_def BRAWCallback_ProcessComplete_def submit_decode_def
        new_BRAWCallback_def world0_def calls_before_submit_def log_def logs_def Let_def
        resolve_addon_def leave_addon_def release_all_def delete_BRAWCallback_def
        white_image_simps checked_def id)
qed

text \<open>
  Claim C4, as amended. Over the life of a sink (constructed, called back any number of
  times, then destroyed) every processed image is released as often as it was delivered by
  a successful \<^verbatim>\<open>ProcessComplete\<close> call, so an image delivered once is released exactly
  once, however many calls there are: after the calls the sink holds the image delivered
  last (the last writer wins), the earlier ones having been released when they were
  replaced, and the destructor releases that one. In braw_addon.cpp the sink is destroyed
  when the call returns, so a call that returns has released every image as often as it took
  it. In braw-extract.cpp the sink is a global that outlives the call: a call first releases
  the image that the sink of the call before held, and the image its own sink holds on
  return stays owed.
\<close>

theorem sink_releases_each_image_once:
  assumes "process_calls_defined calls"
  shows "(\<exists>cb w1. run_callbacks (BRAWCallback_ProcessComplete verbose) calls new_BRAWCallback world0
            = Some (cb, w1)
          \<and> held_id cb = (if delivered calls = [] then None else Some (last (delivered calls)))
          \<and> sink_lifetime verbose calls world0 = Some (delete_BRAWCallback cb w1)
          \<and> (\<forall>i. references_of i (delete_BRAWCallback cb w1) = count_list (delivered calls) i
                \<and> releases_of i (delete_BRAWCallback cb w1) = count_list (delivered calls) i))
       \<and> (\<forall>r w i. ExtractFrame_addon sdk path frameIndex = Some (r, w) \<longrightarrow>
             releases_of i w = references_of i w)
       \<and> (\<forall>r cb w i.
             extract_frame_extract g_callback sdk can_open path frame_index = Some (r, cb, w) \<longrightarrow>
             references_of i w + owed_before g_callback i = releases_of i w + owed cb i)"
proof (intro conjI allI impI)
  show "\<exists>cb w1. run_callbacks (BRAWCallback_ProcessComplete verbose) calls new_BRAWCallback world0
            = Some (cb, w1)
          \<and> held_id cb = (if delivered calls = [] then None else Some (last (delivered calls)))
          \<and> sink_lifetime verbose calls world0 = Some (delete_BRAWCallback cb w1)
          \<and> (\<forall>i. references_of i (delete_BRAWCallback cb w1) = count_list (delivered calls) i
                \<and> releases_of i (delete_BRAWCallback cb w1) = count_list (delivered calls) i)"
    using sink_lifetime_counts [OF assms, of verbose]
    by (simp add: references_of_def releases_of_def)
next
  fix r w i
  assume "ExtractFrame_addon sdk path frameIndex = Some (r, w)"
  then show "releases_of i w = references_of i w"
    by (simp add: references_of_def releases_of_def addon_session_balanced)
next
  fix r cb w i
  assume "extract_frame_extract g_callback sdk can_open path frame_index = Some (r, cb, w)"
  then have "image_balance (owed_before g_callback) cb w"
    by (rule extract_session_balance)
  then show "references_of i w + owed_before g_callback i = releases_of i w + owed cb i"
    by (simp add: image_balance_def references_of_def releases_of_def)
qed

theorem sink_releases_each_image_once_witness:
  "process_calls_defined [(S_OK, Some (white_image 1)), (E_FAIL, None), (S_OK, Some (white_image 2))]
   \<and> (\<exists>cb w1. run_callbacks (BRAWCallback_ProcessComplete True)
            [(S_OK, Some (white_image 1)), (E_FAIL, None), (S_OK, Some (white_image 2))]
            new_BRAWCallback world0 = Some (cb, w1)
      \<and> held_id cb = Some 2
      \<and> sink_lifetime True
            [(S_OK, Some (white_image 1)), (E_FAIL, None), (S_OK, Some (white_image 2))] world0
          = Some (delete_BRAWCallback cb w1)
      \<and> releases_of 1 (delete_BRAWCallback cb w1) = 1
      \<and> releases_of 2 (delete_BRAWCallback cb w1) = 1
      \<and> releases_of 3 (delete_BRAWCallback cb w1) = 0)
   \<and> (\<exists>r w. ExtractFrame_addon (Some (factory_stub (clip_with read_job_ok))) ''clip.braw'' 5
          = Some (r, w)
        \<and> releases_of 7 w = references_of 7 w)
   \<and> (\<exists>r cb w.
          extract_frame_extract None (Some (factory_stub (clip_with read_job_ok))) True
            ''clip.braw'' 5 = Some (r, cb, w)
        \<and> references_of 7 w + owed_before None 7 = releases_of 7 w + owed cb 7)"
proof -
  have defined: "process_calls_defined
      [(S_OK, Some (white_image 1)), (E_FAIL, None), (S_OK, Some (white_image 2))]"
    by (simp add: process_calls_defined_def)
  have ids: "delivered [(S_OK, Some (white_image 1)), (E_FAIL, None), (S_OK, Some (white_image 2))]
      = [1, 2]"
    by (simp add: white_image_def)
  note all = sink_releases_each_image_once
    [OF defined, of True "Some (factory_stub (clip_with read_job_ok))" "''clip.braw''" 5
       None True 5]
  from all [THEN conjunct1] obtain cb w1 where
    "run_callbacks (BRAWCallback_ProcessComplete True)
        [(S_OK, Some (white_image 1)), (E_FAIL, None), (S_OK, Some (white_image 2))]
        new_BRAWCallback world0 = Some (cb, w1)"
    "held_id cb = Some 2"
    "sink_lifetime True
        [(S_OK, Some (white_image 1)), (E_FAIL, None), (S_OK, Some (white_image 2))] world0
      = Some (delete_BRAWCallback cb w1)"
    "\<And>i. releases_of i (delete_BRAWCallback cb w1) = count_list [1, 2] i"
    unfolding ids by auto
  then have life: "\<exists>cb w1. run_callbacks (BRAWCallback_ProcessComplete True)
            [(S_OK, Some (white_image 1)), (E_FAIL, None), (S_OK, Some (white_image 2))]
            new_BRAWCallback world0 = Some (cb, w1)
      \<and> held_id cb = Some 2
      \<and> sink_lifetime True
            [(S_OK, Some (white_image 1)), (E_FAIL, None), (S_OK, Some (white_image 2))] world0
          = Some (delete_BRAWCallback cb w1)
      \<and> releases_of 1 (delete_BRAWCallback cb w1) = 1
      \<and> releases_of 2 (delete_BRAWCallback cb w1) = 1
      \<and> releases_of 3 (delete_BRAWCallback cb w1) = 0"
    by simp
  from all [THEN conjunct2, THEN conjunct1] addon_run_ok
  have addon: "\<exists>r w. ExtractFrame_addon (Some (factory_stub (clip_with read_job_ok))) ''clip.braw'' 5
          = Some (r, w)
        \<and> releases_of 7 w = references_of 7 w"
    by blast
  from all [THEN conjunct2, THEN conjunct2] extract_run_ok
  have cli: "\<exists>r cb w.
          extract_frame_extract None (Some (factory_stub (clip_with read_job_ok))) True
            ''clip.braw'' 5 = Some (r, cb, w)
        \<and> references_of 7 w + owed_before None 7 = releases_of 7 w + owed cb 7"
    by blast
  from defined life addon cli show ?thesis
    by blast
qed

text \<open>
  Claim C4 as stated (in every session the image held by the sink is released exactly once)
  fails on braw-extract.cpp: a call that decodes frame 5 of the stub clip, in a fresh
  process, returns with one reference taken on the image, no release of it, and the image
  still held by the global sink.
\<close>

theorem extract_session_leaves_image_held:
  "map_option (references_of 7 \<circ> snd \<circ> snd)
      (extract_frame_extract None (Some (factory_stub (clip_with read_job_ok))) True
         ''clip.braw'' 5)
     = Some 1
   \<and> map_option (releases_of 7 \<circ> snd \<circ> snd)
      (extract_frame_extract None (Some (factory_stub (clip_with read_job_ok))) True
         ''clip.braw'' 5)
     = Some 0
   \<and> map_option (held_id \<circ> fst \<circ> snd)
      (extract_frame_extract None (Some (factory_stub (clip_with read_job_ok))) True
         ''clip.braw'' 5)
     = Some (Some 7)"
  by (simp add: extract_run_ok references_of_def releases_of_def held_id_def white_image_def)

end
